theory Spec2Isabelle
  imports Main
begin

section \<open>JavaScript values\<close>

text \<open>
  This theory embeds the class \<open>SwaggerSmoke\<close> of swagger-smoke as it stands in
  \<open>src/unnamed/part_001\<close>, the variant with the test case planner, function by function and
  under the source's names (a leading underscore dropped); the two fragments of the earlier
  variant \<open>src/lib/index.js\<close> that treat a failure differently have a section of their own.

  The engine works on the parsed Swagger document and on whatever the user's handlers
  return, so the model needs untyped JavaScript values. Numbers are the integers (status
  codes and counters are all the engine computes with). An object is the list of its own
  properties in the order \<open>Object.getOwnPropertyNames\<close> enumerates them; its keys are
  distinct.
\<close>

datatype jsval =
    JUndefined
  | JNull
  | JBool bool
  | JNum int
  | JStr string
  | JArr "jsval list"
  | JObj "(string \<times> jsval) list"

text \<open>What \<open>if (v)\<close>, \<open>v && ...\<close> and \<open>v || ...\<close> test.\<close>

fun truthy :: "jsval \<Rightarrow> bool" where
  "truthy JUndefined = False"
| "truthy JNull = False"
| "truthy (JBool b) = b"
| "truthy (JNum n) = (n \<noteq> 0)"
| "truthy (JStr s) = (s \<noteq> [])"
| "truthy (JArr xs) = True"
| "truthy (JObj fs) = True"

text \<open>\<open>lodash.isObject\<close>, \<open>lodash.isArray\<close> and \<open>lodash.isString\<close>. An array is an object for
  lodash; \<open>null\<close> is not.\<close>

fun isObject :: "jsval \<Rightarrow> bool" where
  "isObject (JArr xs) = True"
| "isObject (JObj fs) = True"
| "isObject v = False"

fun isArray :: "jsval \<Rightarrow> bool" where
  "isArray (JArr xs) = True"
| "isArray v = False"

fun isString :: "jsval \<Rightarrow> bool" where
  "isString (JStr s) = True"
| "isString v = False"

text \<open>Reading \<open>v.k\<close> where \<open>v\<close> is neither \<open>undefined\<close> nor \<open>null\<close> (those two throw, and
  every caller below tests for them first). The engine reads only the names \<open>properties\<close> and
  \<open>schema\<close>, the keys of the responses object and the scheme names of a security
  requirement, none of which an array, a string, a number or a boolean has.\<close>

fun getProp :: "jsval \<Rightarrow> string \<Rightarrow> jsval" where
  "getProp (JObj fs) k = (case map_of fs k of Some v \<Rightarrow> v | None \<Rightarrow> JUndefined)"
| "getProp v k = JUndefined"

text \<open>The assignment \<open>o[k] = v\<close> on the property list of an object: an existing property keeps
  its place, a new one goes last (the names assigned here are not array indices).\<close>

fun assign :: "(string \<times> jsval) list \<Rightarrow> string \<Rightarrow> jsval \<Rightarrow> (string \<times> jsval) list" where
  "assign [] k v = [(k, v)]"
| "assign ((k', v') # fs) k v = (if k' = k then (k, v) # fs else (k', v') # assign fs k v)"

fun setProp :: "jsval \<Rightarrow> string \<Rightarrow> jsval \<Rightarrow> jsval" where
  "setProp (JObj fs) k v = JObj (assign fs k v)"
| "setProp w k v = w"

text \<open>\<open>Number.prototype.toString\<close> on an integer: its decimal numeral.\<close>

fun showNat :: "nat \<Rightarrow> string" where
  "showNat n =
     (if n < 10 then [''0123456789'' ! n]
      else showNat (n div 10) @ [''0123456789'' ! (n mod 10)])"

declare showNat.simps [simp del]

definition showInt :: "int \<Rightarrow> string" where
  "showInt i = (if i < 0 then CHR ''-'' # showNat (nat (- i)) else showNat (nat i))"

text \<open>\<open>Object.getOwnPropertyNames\<close> of a value that is neither \<open>undefined\<close> nor \<open>null\<close>.\<close>

fun getOwnPropertyNames :: "jsval \<Rightarrow> string list" where
  "getOwnPropertyNames (JObj fs) = map fst fs"
| "getOwnPropertyNames (JArr xs) = map showNat [0..<length xs] @ [''length'']"
| "getOwnPropertyNames (JStr s) = map showNat [0..<length s] @ [''length'']"
| "getOwnPropertyNames v = []"

text \<open>
  \<open>parseInt(s)\<close> with no radix: leading white space, a sign, an optional \<open>0x\<close>, then the
  longest run of digits; \<open>None\<close> is \<open>NaN\<close>. (The value is exact here; JavaScript rounds
  beyond 2^53, far above any status code.)
\<close>

definition isWhiteSpace :: "char \<Rightarrow> bool" where
  "isWhiteSpace c = (c \<in> set [CHR 0x20, CHR 0x09, CHR 0x0A, CHR 0x0B, CHR 0x0C, CHR 0x0D])"

definition digitValue :: "char \<Rightarrow> nat option" where
  "digitValue c =
     (let n = (of_char c :: nat) in
      if 48 \<le> n \<and> n \<le> 57 then Some (n - 48)
      else if 97 \<le> n \<and> n \<le> 122 then Some (n - 87)
      else if 65 \<le> n \<and> n \<le> 90 then Some (n - 55)
      else None)"

fun takeDigits :: "nat \<Rightarrow> string \<Rightarrow> nat list" where
  "takeDigits r [] = []"
| "takeDigits r (c # cs) =
     (case digitValue c of
        Some d \<Rightarrow> if d < r then d # takeDigits r cs else []
      | None \<Rightarrow> [])"

definition parseInt :: "string \<Rightarrow> int option" where
  "parseInt s =
     (let s1 = dropWhile isWhiteSpace s;
          neg = (take 1 s1 = ''-'');
          s2 = (if take 1 s1 = ''-'' \<or> take 1 s1 = ''+'' then drop 1 s1 else s1);
          hex = (take 2 s2 = ''0x'' \<or> take 2 s2 = ''0X'');
          r = (if hex then 16 else 10);
          ds = takeDigits r (if hex then drop 2 s2 else s2)
      in if ds = [] then None
         else Some ((if neg then - 1 else 1) * int (foldl (\<lambda>a d. a * r + d) 0 ds)))"

section \<open>Errors\<close>

text \<open>
  What the engine throws: a \<open>TypeError\<close> of the runtime (a property read on \<open>undefined\<close>), the
  \<open>Error\<close> that \<open>_setSecurityHeader\<close> raises for a handler result it does not support, and
  the rejection of a dispatched request (the transport failed, or the status assertion
  \<open>.expect(code)\<close> did).
\<close>

datatype js_error =
    TypeError string
  | UnsupportedSecurityValue jsval
  | DispatchError string

section \<open>Options\<close>

text \<open>The fields of \<open>options\<close> the engine reads. A flag is what its truthiness is.\<close>

record options =
  disable :: "string list option"
  forceAuthorizationHeader :: bool
  notRequiredPropertiesValidation :: bool
  setParamsInBody :: bool
  successHttpCode :: "int option"
  successCases :: bool

section \<open>The force-required rewrite\<close>

text \<open>
  \<^verbatim>\<open>
  _forceSchemaPropertiesAsRequired(schema) {
    if (schema && schema.properties) {
      schema.required = Object.getOwnPropertyNames(schema.properties);
    }
    lodash.forIn(schema, (val, key) => {
      if (lodash.isArray(val)) {
        val.forEach((el) => {
          if (lodash.isObject(el)) {
            this._forceSchemaPropertiesAsRequired(el);
          }
        });
      }
      if (lodash.isObject(key)) {
        this._forceSchemaPropertiesAsRequired(schema[key]);
      }
    });
  }
  \<close>
  The source mutates the schema in place; the model returns the schema as it is afterwards.
  \<open>requireAll\<close> is the first statement. The loop visits every own property (of an array:
  every element). The second test of the callback asks whether the property \<^emph>\<open>name\<close> is an
  object; a name is a string, so that branch never runs (\<open>key_never_object\<close> below) and the
  function is defined without it; \<open>forceSchemaPropertiesAsRequired_source\<close> then proves the
  equation with the branch written out as the source has it.
\<close>

definition requireAll :: "jsval \<Rightarrow> jsval" where
  "requireAll schema =
     (if truthy schema \<and> truthy (getProp schema ''properties'')
      then setProp schema ''required''
             (JArr (map JStr (getOwnPropertyNames (getProp schema ''properties''))))
      else schema)"

function forceSchemaPropertiesAsRequired :: "jsval \<Rightarrow> jsval" where
  "forceSchemaPropertiesAsRequired schema =
     (case requireAll schema of
        JObj fs \<Rightarrow>
          JObj (map (\<lambda>(key, val).
                  (key,
                   case val of
                     JArr els \<Rightarrow>
                       JArr (map (\<lambda>el. if isObject el
                                       then forceSchemaPropertiesAsRequired el else el) els)
                   | other \<Rightarrow> other)) fs)
      | JArr xs \<Rightarrow>
          JArr (map (\<lambda>val.
                   (case val of
                      JArr els \<Rightarrow>
                        JArr (map (\<lambda>el. if isObject el
                                        then forceSchemaPropertiesAsRequired el else el) els)
                    | other \<Rightarrow> other)) xs)
      | other \<Rightarrow> other)"
  by pat_completeness auto
termination
proof (relation "measure size")
  show "wf (measure size)" by simp
next
  fix schema :: jsval and fs x key val els el
  assume a: "requireAll schema = JObj fs" "x \<in> set fs" "(key, val) = x"
    "val = JArr els" "el \<in> set els" "isObject el"
  have el_arr: "size el < size (JArr els)"
    using a(5) by (induction els) auto
  have assign_set:
    "\<And>fs0 k v. (key, val) \<in> set (assign fs0 k v) \<Longrightarrow> (key, val) \<in> set fs0 \<or> val = v"
  proof -
    fix fs0 :: "(string \<times> jsval) list" and k v
    assume "(key, val) \<in> set (assign fs0 k v)"
    then show "(key, val) \<in> set fs0 \<or> val = v"
      by (induction fs0) (auto split: if_splits)
  qed
  have field_size: "\<And>fs0. (key, val) \<in> set fs0 \<Longrightarrow> size val < size (JObj fs0)"
  proof -
    fix fs0 :: "(string \<times> jsval) list"
    assume "(key, val) \<in> set fs0"
    then show "size val < size (JObj fs0)"
      by (induction fs0) auto
  qed
  have "size el < size schema"
  proof (cases schema)
    case (JObj fs0)
    show ?thesis
    proof (cases "truthy (getProp schema ''properties'')")
      case True
      with a(1) JObj
      have "fs = assign fs0 ''required''
                   (JArr (map JStr (getOwnPropertyNames (getProp schema ''properties''))))"
        by (simp add: requireAll_def)
      with a(2,3) assign_set
      have "(key, val) \<in> set fs0
            \<or> val = JArr (map JStr (getOwnPropertyNames (getProp schema ''properties'')))"
        by blast
      then show ?thesis
      proof
        assume "(key, val) \<in> set fs0"
        with field_size JObj el_arr a(4) show ?thesis by fastforce
      next
        assume "val = JArr (map JStr (getOwnPropertyNames (getProp schema ''properties'')))"
        with a(4,5,6) show ?thesis by auto
      qed
    next
      case False
      with a(1) JObj have "fs = fs0" by (simp add: requireAll_def)
      with a(2,3) field_size JObj el_arr a(4) show ?thesis by fastforce
    qed
  qed (use a(1) in \<open>auto simp: requireAll_def split: if_splits\<close>)
  then show "(el, schema) \<in> measure size" by simp
next
  fix schema :: jsval and xs val els el
  assume a: "requireAll schema = JArr xs" "val \<in> set xs" "val = JArr els"
    "el \<in> set els" "isObject el"
  have el_arr: "size el < size (JArr els)"
    using a(4) by (induction els) auto
  have val_arr: "size val < size (JArr xs)"
    using a(2) by (induction xs) auto
  have "schema = JArr xs"
    using a(1) by (cases schema) (auto simp: requireAll_def split: if_splits)
  with el_arr val_arr a(3) show "(el, schema) \<in> measure size" by simp
qed

declare forceSchemaPropertiesAsRequired.simps [simp del]

section \<open>The test case planner\<close>

text \<open>
  \<^verbatim>\<open>
  _getGetMethodTestCases(responses) {
    const testCases = Object.getOwnPropertyNames(responses)
      .map((statusCode) => parseInt(statusCode))
      .filter((statusCode) => statusCode < (this.options.successCases ? 300 : 500))
      .map((statusCode) => {
        const metadata = responses[statusCode.toString()];
        if (this.options.notRequiredPropertiesValidation) {
          this._forceSchemaPropertiesAsRequired(metadata.schema);
        }
        return { code: statusCode, metadata: metadata };
      });
    if (testCases.length) { return testCases; }
    return [{ code: this.options.successHttpCode || DEFAULT_SUCCESS_CODE }];
  };
  \<close>
  \<open>NaN < n\<close> is false, so a key that is no number (\<open>default\<close>, \<open>x-...\<close>) is dropped by the
  filter. The response is looked up under the decimal text of the parsed code; when that
  finds nothing, \<open>metadata.schema\<close> throws if the rewrite is enabled. The rewrite happens in
  place, so the case's metadata carries the rewritten schema. (The contract itself is not
  written back: one schema object shared by two responses is rewritten for each on its
  own.)
\<close>

record test_case =
  code :: int
  metadata :: jsval

definition DEFAULT_SUCCESS_CODE :: int where
  "DEFAULT_SUCCESS_CODE = 200"

definition belowLimit :: "options \<Rightarrow> int option \<Rightarrow> bool" where
  "belowLimit opts statusCode =
     (case statusCode of
        None \<Rightarrow> False
      | Some c \<Rightarrow> c < (if successCases opts then 300 else 500))"

text \<open>The in-place change of the value stored under \<open>k\<close>, when there is one.\<close>

fun mutateProp :: "jsval \<Rightarrow> string \<Rightarrow> (jsval \<Rightarrow> jsval) \<Rightarrow> jsval" where
  "mutateProp (JObj fs) k f = JObj (map (\<lambda>(k', v). if k' = k then (k', f v) else (k', v)) fs)"
| "mutateProp w k f = w"

fun planCases :: "options \<Rightarrow> (string \<times> jsval) list \<Rightarrow> int option list
                  \<Rightarrow> js_error + test_case list" where
  "planCases opts responses [] = Inr []"
| "planCases opts responses (None # rest) = planCases opts responses rest"
| "planCases opts responses (Some statusCode # rest) =
     (let metadata = getProp (JObj responses) (showInt statusCode) in
      if notRequiredPropertiesValidation opts \<and> (metadata = JUndefined \<or> metadata = JNull)
      then Inl (TypeError ''Cannot read property schema'')
      else
        (case planCases opts responses rest of
           Inl e \<Rightarrow> Inl e
         | Inr cases \<Rightarrow>
             Inr (\<lparr>code = statusCode,
                   metadata = (if notRequiredPropertiesValidation opts
                               then mutateProp metadata ''schema'' forceSchemaPropertiesAsRequired
                               else metadata)\<rparr> # cases)))"

definition getGetMethodTestCases :: "options \<Rightarrow> (string \<times> jsval) list
                                      \<Rightarrow> js_error + test_case list" where
  "getGetMethodTestCases opts responses =
     (case planCases opts responses
             (filter (belowLimit opts) (map parseInt (map fst responses))) of
        Inl e \<Rightarrow> Inl e
      | Inr testCases \<Rightarrow>
          if testCases \<noteq> [] then Inr testCases
          else Inr [\<lparr>code = (case successHttpCode opts of
                               Some c \<Rightarrow> if c \<noteq> 0 then c else DEFAULT_SUCCESS_CODE
                             | None \<Rightarrow> DEFAULT_SUCCESS_CODE),
                     metadata = JUndefined\<rparr>])"

section \<open>The engine and its collaborators\<close>

text \<open>
  A handler is the user's callback; \<open>_call\<close> applies it to the argument array and awaits the
  result when the handler is asynchronous, so the model is the value it yields.
\<close>

type_synonym handler = "jsval list \<Rightarrow> jsval"

definition call :: "handler \<Rightarrow> jsval list \<Rightarrow> jsval" where
  "call fn params = fn params"

text \<open>
  A parameter of the contract (\<open>pname\<close>, \<open>pin\<close>, \<open>ptype\<close> and \<open>pschema\<close> are its \<open>name\<close>, \<open>in\<close>,
  \<open>type\<close> and \<open>schema\<close>; an absent one is \<open>JUndefined\<close>), and the metadata of one method of a
  path. \<open>responses\<close> is the object as declared, keys in enumeration order; an optional
  field that is absent is \<open>None\<close>. A path of the contract is the list of its methods: the
  model has no path item with keys other than operations.
\<close>

record param =
  pname :: string
  pin :: string
  ptype :: jsval
  pschema :: jsval

record method_metadata =
  parameters :: "param list option"
  responses :: "(string \<times> jsval) list"
  security :: "(string \<times> jsval) list list option"
  consumes :: "string list option"

text \<open>
  The fields of the instance that a run only reads: \<open>this._basePath\<close>,
  \<open>this._apiDefinitions.paths\<close>, the two \<open>Map\<close>s \<open>this._security\<close> and \<open>this._requestParams\<close>
  (entries in insertion order; the \<open>cache\<close> stored beside each handler is never read),
  \<open>this._staticParams\<close> (\<open>None\<close> until \<open>params\<close> is given a dictionary) and \<open>this.options\<close>.
\<close>

record engine =
  this_basePath :: "string option"
  this_paths :: "(string \<times> (string \<times> method_metadata) list) list"
  this_security :: "(string \<times> handler) list"
  this_requestParams :: "(string \<times> handler) list"
  this_staticParams :: "(string \<times> jsval) list option"
  this_options :: options

text \<open>
  One request handed to supertest, \<open>this._api[method](url).set(headers).send(body)\<close>, and what
  comes back: a response (status and body) or a failure of the transport.
\<close>

record request =
  req_method :: string
  req_url :: string
  req_headers :: "string \<rightharpoonup> jsval"
  req_body :: jsval

datatype outcome = Responded int jsval | Failed string

text \<open>
  The libraries and the system under test, which the engine only calls:
  \<open>fakeResolve\<close> is \<open>fakeGenerator.resolve(schema)\<close> of json-schema-faker, awaited;
  \<open>validate\<close> is \<open>this._schemaValidator.validate(body, schema)\<close> of z-schema;
  \<open>jsonPaths object key\<close> is \<open>jsonPath.paths(object, '$..' + key)\<close>, each path through
  \<open>jsonPath.stringify\<close>; \<open>lodashSet\<close> is \<open>lodash.set\<close>, returning the object it changed;
  \<open>dispatch\<close> is the supertest agent on the application. The libraries are functions of
  their arguments here, and so are the handlers: what they throw on their own account, and
  what they remember between calls, is outside the model.
\<close>

record externals =
  fakeResolve :: "jsval \<Rightarrow> jsval"
  validate :: "jsval \<Rightarrow> jsval \<Rightarrow> bool"
  jsonPaths :: "jsval \<Rightarrow> string \<Rightarrow> string list"
  lodashSet :: "jsval \<Rightarrow> string \<Rightarrow> jsval \<Rightarrow> jsval"
  dispatch :: "request \<Rightarrow> outcome"

text \<open>
  What a run changes: the two counters of the instance, the requests that went out (the
  effect of \<open>_testCase\<close> on the system under test, oldest first), and the variable of the
  module
  \<^verbatim>\<open>
  let _globalReject;
  \<close>
  (line 13), which is \<open>undefined\<close> when the module is loaded and is assigned in one place
  only, inside the promise of \<open>_testCase\<close>. \<open>globalReject\<close> says whether it holds a function.
\<close>

record run_state =
  testFails :: nat
  testPasses :: nat
  sent :: "request list"
  globalReject :: bool

record tally =
  fails :: nat
  passes :: nat

text \<open>
  The constructor: empty registries, no static dictionary, both counters zero.
  \<open>constructor_state\<close> is the state of a new instance in the module as loaded: nothing sent,
  \<open>_globalReject\<close> still \<open>undefined\<close>.
  \<open>security(key, handler)\<close> and \<open>params(key, handler)\<close> are \<open>Map.set\<close>; \<open>params(dictionary)\<close>
  with no handler replaces the static dictionary.
\<close>

definition constructor_engine :: "string option \<Rightarrow> (string \<times> (string \<times> method_metadata) list) list
                                   \<Rightarrow> options \<Rightarrow> engine" where
  "constructor_engine basePath paths opts =
     \<lparr>this_basePath = basePath, this_paths = paths, this_security = [],
      this_requestParams = [], this_staticParams = None, this_options = opts\<rparr>"

definition constructor_state :: run_state where
  "constructor_state = \<lparr>testFails = 0, testPasses = 0, sent = [], globalReject = False\<rparr>"

fun mapSet :: "(string \<times> 'a) list \<Rightarrow> string \<Rightarrow> 'a \<Rightarrow> (string \<times> 'a) list" where
  "mapSet [] k v = [(k, v)]"
| "mapSet ((k', v') # m) k v = (if k' = k then (k, v) # m else (k', v') # mapSet m k v)"

definition register_security :: "engine \<Rightarrow> string \<Rightarrow> handler \<Rightarrow> engine" where
  "register_security e key h = e\<lparr>this_security := mapSet (this_security e) key h\<rparr>"

definition register_params :: "engine \<Rightarrow> string \<Rightarrow> handler \<Rightarrow> engine" where
  "register_params e key h = e\<lparr>this_requestParams := mapSet (this_requestParams e) key h\<rparr>"

definition register_staticParams :: "engine \<Rightarrow> (string \<times> jsval) list \<Rightarrow> engine" where
  "register_staticParams e dict = e\<lparr>this_staticParams := Some dict\<rparr>"

text \<open>\<open>runTests\<close> copies the keys of both maps before the traversal; the maps do not change
  during a run, so the copies are the keys.\<close>

definition securityKeys :: "engine \<Rightarrow> string list" where
  "securityKeys e = map fst (this_security e)"

definition requestParamsKeys :: "engine \<Rightarrow> string list" where
  "requestParamsKeys e = map fst (this_requestParams e)"

section \<open>The parameter resolver\<close>

text \<open>
  \<^verbatim>\<open>
  _generateErrorParam(type, statusCode) {
    if (type) {
      if (statusCode === 400) {
        type = ((type) => {
          switch(type) {
            case 'integer': case 'number': case 'boolean': case 'array': case 'object':
              return 'string';
            case 'string':
              return 'integer';
            default:
              return 'string';
          }
        })(type);
      }
      return fakeGenerator.resolve({type});
    }
  }
  \<close>
\<close>

definition invertType :: "jsval \<Rightarrow> jsval" where
  "invertType t =
     (if t = JStr ''integer'' \<or> t = JStr ''number'' \<or> t = JStr ''boolean''
         \<or> t = JStr ''array'' \<or> t = JStr ''object''
      then JStr ''string''
      else if t = JStr ''string'' then JStr ''integer''
      else JStr ''string'')"

definition generateErrorParam :: "externals \<Rightarrow> jsval \<Rightarrow> int \<Rightarrow> jsval" where
  "generateErrorParam w t statusCode =
     (if truthy t
      then fakeResolve w (JObj [(''type'', if statusCode = 400 then invertType t else t)])
      else JUndefined)"

text \<open>
  \<^verbatim>\<open>
  async getParamValue (key, type, statusCode, ...args) {
    if(this._requestParams.has(key)) {
      return await this._call(this._requestParams.get(key).handler, args);
    }
    if (this._staticParams && this._staticParams.hasOwnProperty(key)) {
      return this._staticParams[key];
    }
    if (type) {
      return this._generateErrorParam(type, statusCode);
    }
  };
  \<close>
\<close>

definition getParamValue :: "externals \<Rightarrow> engine \<Rightarrow> string \<Rightarrow> jsval \<Rightarrow> int \<Rightarrow> jsval list
                              \<Rightarrow> jsval" where
  "getParamValue w e key t statusCode args =
     (case map_of (this_requestParams e) key of
        Some h \<Rightarrow> call h args
      | None \<Rightarrow>
          (case (case this_staticParams e of
                   None \<Rightarrow> None
                 | Some dict \<Rightarrow> map_of dict key) of
             Some v \<Rightarrow> v
           | None \<Rightarrow> if truthy t then generateErrorParam w t statusCode else JUndefined))"

section \<open>Building the URL\<close>

text \<open>
  A value spliced into a template literal, or given to \<open>String.prototype.replace\<close> as the
  replacement, is converted by \<open>ToString\<close>: \<open>undefined\<close> becomes the text \<open>undefined\<close>.
\<close>

fun joinWith :: "string \<Rightarrow> string list \<Rightarrow> string" where
  "joinWith sep [] = []"
| "joinWith sep [x] = x"
| "joinWith sep (x # y # ys) = x @ sep @ joinWith sep (y # ys)"

fun toStr :: "jsval \<Rightarrow> string" where
  "toStr JUndefined = ''undefined''"
| "toStr JNull = ''null''"
| "toStr (JBool b) = (if b then ''true'' else ''false'')"
| "toStr (JNum n) = showInt n"
| "toStr (JStr s) = s"
| "toStr (JArr xs) =
     joinWith '','' (map (\<lambda>x. if x = JUndefined \<or> x = JNull then [] else toStr x) xs)"
| "toStr (JObj fs) = ''[object Object]''"

text \<open>
  \<open>template.replace(pattern, replacement)\<close> with a string pattern: the first occurrence only,
  and in the replacement \<open>$$\<close>, \<open>$&\<close>, \<open>$`\<close> and \<open>$'\<close> stand for a dollar sign, the match, the
  text before it and the text after it (there are no capture groups, so \<open>$1\<close> is itself).
\<close>

fun findFirst :: "string \<Rightarrow> string \<Rightarrow> (string \<times> string) option" where
  "findFirst pat [] = (if pat = [] then Some ([], []) else None)"
| "findFirst pat (c # cs) =
     (if take (length pat) (c # cs) = pat then Some ([], drop (length pat) (c # cs))
      else (case findFirst pat cs of
              None \<Rightarrow> None
            | Some (before, after) \<Rightarrow> Some (c # before, after)))"

fun getSubstitution :: "string \<Rightarrow> string \<Rightarrow> string \<Rightarrow> string \<Rightarrow> string" where
  "getSubstitution matched before after [] = []"
| "getSubstitution matched before after [c] = [c]"
| "getSubstitution matched before after (c # d # rest) =
     (if c = CHR ''$'' \<and> d = CHR ''$'' then CHR ''$'' # getSubstitution matched before after rest
      else if c = CHR ''$'' \<and> d = CHR ''&'' then matched @ getSubstitution matched before after rest
      else if c = CHR ''$'' \<and> d = CHR 0x60 then before @ getSubstitution matched before after rest
      else if c = CHR ''$'' \<and> d = CHR 0x27 then after @ getSubstitution matched before after rest
      else c # getSubstitution matched before after (d # rest))"

definition replace :: "string \<Rightarrow> string \<Rightarrow> string \<Rightarrow> string" where
  "replace template pat replacement =
     (case findFirst pat template of
        None \<Rightarrow> template
      | Some (before, after) \<Rightarrow> before @ getSubstitution pat before after replacement @ after)"

text \<open>
  \<^verbatim>\<open>
  async _buildUrl(template, method, params, testCaseStatusCode) {
    if (params) {
      for (const param of params) {
        if (param.in === 'body') { continue; }
        const paramValue = await this.getParamValue(param.name,
          param.type, testCaseStatusCode, template, method);
        if (param.in === 'path') {
          template = template.replace(`{${param.name}}`, paramValue);
          continue;
        }
        if (param.in === 'query') {
          template += `${(template.includes('?') ? '&' : '?')}${param.name}=${paramValue}`;
        }
      }
    }
    return template;
  };
  \<close>
  The handler is given the template as built so far.
\<close>

fun buildUrlLoop :: "externals \<Rightarrow> engine \<Rightarrow> string \<Rightarrow> string \<Rightarrow> int \<Rightarrow> param list \<Rightarrow> string" where
  "buildUrlLoop w e template method statusCode [] = template"
| "buildUrlLoop w e template method statusCode (p # rest) =
     (if pin p = ''body'' then buildUrlLoop w e template method statusCode rest
      else
        (let paramValue = getParamValue w e (pname p) (ptype p) statusCode
                            [JStr template, JStr method]
         in if pin p = ''path''
            then buildUrlLoop w e
                   (replace template (''{'' @ pname p @ ''}'') (toStr paramValue))
                   method statusCode rest
            else if pin p = ''query''
            then buildUrlLoop w e
                   (template @ (if CHR ''?'' \<in> set template then ''&'' else ''?'')
                             @ pname p @ ''='' @ toStr paramValue)
                   method statusCode rest
            else buildUrlLoop w e template method statusCode rest))"

definition buildUrl :: "externals \<Rightarrow> engine \<Rightarrow> string \<Rightarrow> string \<Rightarrow> param list option \<Rightarrow> int
                         \<Rightarrow> string" where
  "buildUrl w e template method params testCaseStatusCode =
     (case params of
        None \<Rightarrow> template
      | Some ps \<Rightarrow> buildUrlLoop w e template method testCaseStatusCode ps)"

section \<open>The security resolver and the request headers\<close>

text \<open>
  \<^verbatim>\<open>
  async _setSecurityHeader(securityMetadataCollection, headers, path, method, caseStatusCode) {
    if (!this._security.size) { return headers; }
    let middleware;
    let metadata = null;
    if (securityMetadataCollection && securityMetadataCollection.length) {
      const [securityMetadata] = securityMetadataCollection;
      const securityMiddlewareKey = this._securityKeys.find(
        (middlewareKey) => securityMetadata.hasOwnProperty(middlewareKey));
      middleware = this._security.get(securityMiddlewareKey);
      metadata = securityMetadata[securityMiddlewareKey];
    } else {
      if (!this.options.forceAuthorizationHeader) { return headers; }
      middleware = this._security.values().next().value;
    }
    const securityHeader = await this._call(middleware.handler,
      [metadata, path, method, caseStatusCode]);
    if (lodash.isObject(securityHeader)) {
      headers = Object.assign(headers, securityHeader);
    } else {
      if (lodash.isString(securityHeader)) {
        headers.Authorization = securityHeader;
      } else {
        throw new Error(`Security middleware returned not supported value: ...`);
      }
    }
    return headers;
  };
  \<close>
  \<open>selectMiddleware\<close> is the part up to the call: \<open>Unchanged\<close> stands for the two early
  returns, \<open>Missing\<close> for a \<open>middleware\<close> that is \<open>undefined\<close> (reading its \<open>handler\<close> throws),
  \<open>Selected\<close> for the handler found and the metadata it is called with. The headers are a
  map from header name to value.
\<close>

datatype selection = Unchanged | Missing | Selected handler jsval

definition selectMiddleware :: "engine \<Rightarrow> (string \<times> jsval) list list option \<Rightarrow> selection" where
  "selectMiddleware e securityMetadataCollection =
     (if this_security e = [] then Unchanged
      else
        (case securityMetadataCollection of
           Some (securityMetadata # others) \<Rightarrow>
             (case find (\<lambda>middlewareKey. middlewareKey \<in> set (map fst securityMetadata))
                     (securityKeys e) of
                None \<Rightarrow> Missing
              | Some securityMiddlewareKey \<Rightarrow>
                  (case map_of (this_security e) securityMiddlewareKey of
                     None \<Rightarrow> Missing
                   | Some h \<Rightarrow> Selected h (getProp (JObj securityMetadata) securityMiddlewareKey)))
         | other \<Rightarrow>
             if \<not> forceAuthorizationHeader (this_options e) then Unchanged
             else (case this_security e of
                     [] \<Rightarrow> Missing
                   | (k, h) # later \<Rightarrow> Selected h JNull)))"

text \<open>\<open>Object.assign(headers, source)\<close> for a source that lodash calls an object: every own
  enumerable property of the source is written, the indices of an array included.\<close>

fun objectAssign :: "(string \<rightharpoonup> jsval) \<Rightarrow> jsval \<Rightarrow> (string \<rightharpoonup> jsval)" where
  "objectAssign headers (JObj fs) = foldl (\<lambda>h (k, v). h(k \<mapsto> v)) headers fs"
| "objectAssign headers (JArr xs) =
     foldl (\<lambda>h (k, v). h(k \<mapsto> v)) headers (zip (map showNat [0..<length xs]) xs)"
| "objectAssign headers v = headers"

definition setSecurityHeader :: "engine \<Rightarrow> (string \<times> jsval) list list option
                                  \<Rightarrow> (string \<rightharpoonup> jsval) \<Rightarrow> string \<Rightarrow> string \<Rightarrow> int
                                  \<Rightarrow> js_error + (string \<rightharpoonup> jsval)" where
  "setSecurityHeader e securityMetadataCollection headers path method caseStatusCode =
     (case selectMiddleware e securityMetadataCollection of
        Unchanged \<Rightarrow> Inr headers
      | Missing \<Rightarrow> Inl (TypeError ''Cannot read property handler of undefined'')
      | Selected h md \<Rightarrow>
          (let securityHeader = call h [md, JStr path, JStr method, JNum caseStatusCode]
           in if isObject securityHeader then Inr (objectAssign headers securityHeader)
              else if isString securityHeader
              then Inr (headers(''Authorization'' \<mapsto> securityHeader))
              else Inl (UnsupportedSecurityValue securityHeader)))"

text \<open>
  \<^verbatim>\<open>
  _setContentType(metadata,headers) {
    const [contentType] = metadata.consumes || ['application/json'];
    headers['Content-Type'] = contentType;
    return headers;
  };
  async _getRequestHeaders(metadata, template, method, caseStatusCode) {
    let headers = {};
    headers = await this._setSecurityHeader(
      metadata.security, headers, template, method, caseStatusCode);
    headers = await this._setContentType(metadata, headers, caseStatusCode);
    return headers;
  };
  \<close>
\<close>

definition setContentType :: "method_metadata \<Rightarrow> (string \<rightharpoonup> jsval) \<Rightarrow> (string \<rightharpoonup> jsval)" where
  "setContentType md headers =
     headers(''Content-Type'' \<mapsto>
       (case consumes md of
          None \<Rightarrow> JStr ''application/json''
        | Some [] \<Rightarrow> JUndefined
        | Some (contentType # others) \<Rightarrow> JStr contentType))"

definition getRequestHeaders :: "engine \<Rightarrow> method_metadata \<Rightarrow> string \<Rightarrow> string \<Rightarrow> int
                                  \<Rightarrow> js_error + (string \<rightharpoonup> jsval)" where
  "getRequestHeaders e md template method caseStatusCode =
     (case setSecurityHeader e (security md) Map.empty template method caseStatusCode of
        Inl err \<Rightarrow> Inl err
      | Inr headers \<Rightarrow> Inr (setContentType md headers))"

section \<open>The request body\<close>

text \<open>
  \<^verbatim>\<open>
  async setObjectParamValue(object, key, template, testCaseStatusCode) {
    const paramMatches = jsonPath.paths(object, `$..${key}`);
    if (paramMatches.length > 0) {
      const paramValue = await this.getParamValue(key, null, testCaseStatusCode, template, true);
      paramMatches.forEach((paramMatch) => {
        const paramPath = jsonPath.stringify(paramMatch).substring(2);
        lodash.set(object, paramPath, paramValue);
      });
    }
    return object;
  };
  async _buildRequestBody(template, params, testCaseStatusCode) {
    if (!params) return;
    const bodyParam = params.find((param) => param.in === 'body');
    if (bodyParam) {
      let fakeData = await fakeGenerator.resolve(bodyParam.schema);
      if (this.options.setParamsInBody) {
        const paramsKeys = lodash.union(
          Object.getOwnPropertyNames(this._staticParams), this._requestParamsKeys);
        for (const paramKey of paramsKeys) {
          fakeData = await this.setObjectParamValue(fakeData, paramKey, template, testCaseStatusCode);
        }
      }
      return fakeData;
    }
  };
  \<close>
  \<open>Object.getOwnPropertyNames(undefined)\<close> throws: with \<open>setParamsInBody\<close> on, a body
  parameter needs a static dictionary.
\<close>

definition setObjectParamValue :: "externals \<Rightarrow> engine \<Rightarrow> jsval \<Rightarrow> string \<Rightarrow> string \<Rightarrow> int
                                    \<Rightarrow> jsval" where
  "setObjectParamValue w e object key template testCaseStatusCode =
     (let paramMatches = jsonPaths w object key
      in if length paramMatches > 0
         then
           (let paramValue = getParamValue w e key JNull testCaseStatusCode
                               [JStr template, JBool True]
            in foldl (\<lambda>obj paramMatch. lodashSet w obj (drop 2 paramMatch) paramValue)
                 object paramMatches)
         else object)"

fun union :: "string list \<Rightarrow> string list \<Rightarrow> string list" where
  "union [] [] = []"
| "union [] (y # ys) = y # filter (\<lambda>z. z \<noteq> y) (union [] ys)"
| "union (x # xs) ys = x # filter (\<lambda>z. z \<noteq> x) (union xs ys)"

definition buildRequestBody :: "externals \<Rightarrow> engine \<Rightarrow> string \<Rightarrow> param list option \<Rightarrow> int
                                 \<Rightarrow> js_error + jsval" where
  "buildRequestBody w e template params testCaseStatusCode =
     (case params of
        None \<Rightarrow> Inr JUndefined
      | Some ps \<Rightarrow>
          (case find (\<lambda>p. pin p = ''body'') ps of
             None \<Rightarrow> Inr JUndefined
           | Some bodyParam \<Rightarrow>
               (let fakeData = fakeResolve w (pschema bodyParam)
                in if setParamsInBody (this_options e)
                   then
                     (case this_staticParams e of
                        None \<Rightarrow> Inl (TypeError ''Cannot convert undefined or null to object'')
                      | Some dict \<Rightarrow>
                          Inr (foldl (\<lambda>data paramKey.
                                        setObjectParamValue w e data paramKey template
                                          testCaseStatusCode)
                                 fakeData (union (map fst dict) (requestParamsKeys e))))
                   else Inr fakeData)))"

section \<open>Execution and tally\<close>

text \<open>
  \<^verbatim>\<open>
  async _testCase(method, template, metadata, testCase) {
    const url = await this._buildUrl(template, method, metadata.parameters, testCase.code);
    const headers = await this._getRequestHeaders(metadata, template, method, testCase.code);
    const body = await this._buildRequestBody(template, metadata.parameters, testCase.code);
    const testName = `${method.toUpperCase()} ${template} (${testCase.code})`;
    if (this.options.disable && this.options.disable.includes(`${method}:${template}`)) {
      console.log(chalk.gray(`${method.toUpperCase()} ${template}`));
      return;
    }
    process.on('uncaughtException', _globalReject);
    return new Promise((resolve, reject) => {
      _globalReject = reject;
      this._api[method](this._basePath + url)
        .set(headers)
        .expect(testCase.code)
        .send(body)
        .then((res) => {
          if (testCase.metadata
            && testCase.metadata.schema
            && !this._schemaValidator.validate(res.body, testCase.metadata.schema)) {
            ...
            console.log(chalk.red(`${testName}: ${schemaValidationErrorMessage}`));
            this._testFails++;
            return resolve();
          }
          console.log(chalk.green(`${testName}`));
          this._testPasses++;
          resolve();
        }).catch((error) => {
          console.log(chalk.red(`${testName}: ${error}`));
          this._testFails++;
          reject(error);
      });
    });
  }
  \<close>
  A function returns the state it leaves and the error it throws, if any: the counters keep
  what was added before a rejection. \<open>.expect(testCase.code)\<close> rejects a response with
  another status, so that response and a failure of the transport both reach \<open>catch\<close>.

  \<open>process.on('uncaughtException', _globalReject)\<close> comes before the promise is built. Node's
  \<open>EventEmitter\<close> throws a \<open>TypeError\<close> when the listener it is given is not a function, so
  while \<open>_globalReject\<close> is \<open>undefined\<close> the statement throws: \<open>_testCase\<close> rejects with
  that error, nothing is dispatched and no counter moves. Only with a function in
  \<open>_globalReject\<close> does the call register it and go on to the promise, whose executor
  assigns \<open>_globalReject = reject\<close> and sends the request. Logging is left out, and so is the
  handler of \<open>unhandledRejection\<close> that the module installs (lines 14 to 19): it acts on
  rejections nobody handles, after the run.
\<close>

definition isDisabled :: "engine \<Rightarrow> string \<Rightarrow> string \<Rightarrow> bool" where
  "isDisabled e method template =
     (case disable (this_options e) of
        None \<Rightarrow> False
      | Some entries \<Rightarrow> (method @ '':'' @ template) \<in> set entries)"

text \<open>The first three statements of \<open>_testCase\<close> and the request they lead to.\<close>

definition prepareRequest :: "externals \<Rightarrow> engine \<Rightarrow> string \<Rightarrow> string \<Rightarrow> method_metadata
                               \<Rightarrow> test_case \<Rightarrow> js_error + request" where
  "prepareRequest w e method template md tc =
     (let url = buildUrl w e template method (parameters md) (code tc) in
      case getRequestHeaders e md template method (code tc) of
        Inl err \<Rightarrow> Inl err
      | Inr headers \<Rightarrow>
          (case buildRequestBody w e template (parameters md) (code tc) of
             Inl err \<Rightarrow> Inl err
           | Inr body \<Rightarrow>
               Inr \<lparr>req_method = method,
                    req_url = (case this_basePath e of
                                 None \<Rightarrow> ''undefined''
                               | Some b \<Rightarrow> b) @ url,
                    req_headers = headers,
                    req_body = body\<rparr>))"

definition testCase :: "externals \<Rightarrow> engine \<Rightarrow> string \<Rightarrow> string \<Rightarrow> method_metadata \<Rightarrow> test_case
                         \<Rightarrow> run_state \<Rightarrow> run_state \<times> js_error option" where
  "testCase w e method template md tc s =
     (case prepareRequest w e method template md tc of
        Inl err \<Rightarrow> (s, Some err)
      | Inr req \<Rightarrow>
          if isDisabled e method template then (s, None)
          else if \<not> globalReject s
          then (s, Some (TypeError ''The listener argument must be of type function''))
          else
            (let s1 = s\<lparr>globalReject := True, sent := sent s @ [req]\<rparr>
             in case dispatch w req of
                  Failed msg \<Rightarrow>
                    (s1\<lparr>testFails := testFails s1 + 1\<rparr>, Some (DispatchError msg))
                | Responded status resBody \<Rightarrow>
                    if status \<noteq> code tc
                    then (s1\<lparr>testFails := testFails s1 + 1\<rparr>,
                          Some (DispatchError ''unexpected status''))
                    else if truthy (metadata tc)
                            \<and> truthy (getProp (metadata tc) ''schema'')
                            \<and> \<not> validate w resBody (getProp (metadata tc) ''schema'')
                    then (s1\<lparr>testFails := testFails s1 + 1\<rparr>, None)
                    else (s1\<lparr>testPasses := testPasses s1 + 1\<rparr>, None)))"

text \<open>
  \<^verbatim>\<open>
  async _testEndpointMethod(template, method, metadata) {
    if (this.options.disable
      && this.options.disable.includes(`${method}:${template}`)) {
      console.log(chalk.gray(`${method.toUpperCase()} ${template}`));
      return;
    }
    const testCases = this._getGetMethodTestCases(metadata.responses);
    for(const testCase of testCases) {
      await this._testCase(method, template, metadata, testCase);
    }
  }
  async _testEndpoint(name, metadata) {
    const methods = Object.getOwnPropertyNames(metadata);
    for (const methodName of methods) {
      await this._testEndpointMethod(name, methodName, metadata[methodName]);
    }
  };
  async runTests(swaggerApp) {
    this._securityKeys = Array.from(this._security.keys());
    this._requestParamsKeys = Array.from(this._requestParams.keys());
    this._api = suertest(swaggerApp);
    const endpoints = Object.getOwnPropertyNames(this._apiDefinitions.paths);
    for (const endpointName of endpoints) {
      await this._testEndpoint(endpointName, this._apiDefinitions.paths[endpointName]);
    }
    console.log(chalk.yellow(`Passed: ${this._testPasses}, Fails: ${this._testFails}`));
    return { fails: this._testFails, passes: this._testPasses };
  };
  \<close>
  An \<open>await\<close> of a rejected promise throws, and none of the three loops catches: the first
  error ends the loop and is the function's own error.
\<close>

fun testCases_loop :: "externals \<Rightarrow> engine \<Rightarrow> string \<Rightarrow> string \<Rightarrow> method_metadata
                        \<Rightarrow> test_case list \<Rightarrow> run_state \<Rightarrow> run_state \<times> js_error option" where
  "testCases_loop w e method template md [] s = (s, None)"
| "testCases_loop w e method template md (tc # rest) s =
     (case testCase w e method template md tc s of
        (s', Some err) \<Rightarrow> (s', Some err)
      | (s', None) \<Rightarrow> testCases_loop w e method template md rest s')"

definition testEndpointMethod :: "externals \<Rightarrow> engine \<Rightarrow> string \<Rightarrow> string \<Rightarrow> method_metadata
                                   \<Rightarrow> run_state \<Rightarrow> run_state \<times> js_error option" where
  "testEndpointMethod w e template method md s =
     (if isDisabled e method template then (s, None)
      else
        (case getGetMethodTestCases (this_options e) (responses md) of
           Inl err \<Rightarrow> (s, Some err)
         | Inr testCases \<Rightarrow> testCases_loop w e method template md testCases s))"

fun testEndpoint :: "externals \<Rightarrow> engine \<Rightarrow> string \<Rightarrow> (string \<times> method_metadata) list
                      \<Rightarrow> run_state \<Rightarrow> run_state \<times> js_error option" where
  "testEndpoint w e name [] s = (s, None)"
| "testEndpoint w e name ((methodName, md) # rest) s =
     (case testEndpointMethod w e name methodName md s of
        (s', Some err) \<Rightarrow> (s', Some err)
      | (s', None) \<Rightarrow> testEndpoint w e name rest s')"

fun endpoints_loop :: "externals \<Rightarrow> engine \<Rightarrow> (string \<times> (string \<times> method_metadata) list) list
                        \<Rightarrow> run_state \<Rightarrow> run_state \<times> js_error option" where
  "endpoints_loop w e [] s = (s, None)"
| "endpoints_loop w e ((endpointName, methods) # rest) s =
     (case testEndpoint w e endpointName methods s of
        (s', Some err) \<Rightarrow> (s', Some err)
      | (s', None) \<Rightarrow> endpoints_loop w e rest s')"

definition runTests :: "externals \<Rightarrow> engine \<Rightarrow> run_state \<Rightarrow> run_state \<times> (js_error + tally)" where
  "runTests w e s =
     (case endpoints_loop w e (this_paths e) s of
        (s', Some err) \<Rightarrow> (s', Inl err)
      | (s', None) \<Rightarrow> (s', Inr \<lparr>fails = testFails s', passes = testPasses s'\<rparr>))"

section \<open>The earlier variant of the engine\<close>

text \<open>
  \<open>src/lib/index.js\<close> is an earlier variant of the same class: one request per method, no
  planner. Two of its fragments differ from the engine above in what they do with a
  failure. Its security resolver:
  \<^verbatim>\<open>
  async _setAuthorizationHeader(securityMetadataCollection, headers, path, method) {
    if (!securityMetadataCollection
      || securityMetadataCollection.length === 0
      || !this._security.size) {
      if (this.options.forceAuthorizationHeader && this._security.size) {
        headers.Authorization = await this._call(
          this._security.values().next().value.handler, [null, path, method]);
      }
      return headers;
    }
    const [securityMetadata] = securityMetadataCollection;
    const securityMiddlewareKey = this._securityKeys.find(
      (middlewareKey) => securityMetadata.hasOwnProperty(middlewareKey));
    const middleware = this._security.get(securityMiddlewareKey);
    headers.Authorization = await this._call(middleware.handler,
      [securityMetadata[securityMiddlewareKey], path, method]);
    return headers;
  };
  \<close>
  and the end of its \<open>_testMethod\<close>, the promise chain on the dispatched request:
  \<^verbatim>\<open>
    return this._api[method](this._basePath + url)
      .set(headers)
      .expect(successResponse.code)
      .send(body)
      .then((res) => {
        if (successResponse.metadata.schema
          && !schemaValidator.validate(res.body, successResponse.metadata.schema)) {
          ...
          this._testFails++;
        }
        console.log(chalk.green(`${method.toUpperCase()} ${template}`));
        this._testPasses++;
      }).catch((error) => {
        console.log(chalk.red(`${method.toUpperCase()} ${template}: ${error}`));
        this._testFails++;
      });
  \<close>
  \<open>legacy_settle\<close> is that chain as a function of the request's outcome. Its \<open>catch\<close> returns
  normally, so the chain never rejects; it also catches the \<open>TypeError\<close> of the \<open>then\<close>
  callback when \<open>successResponse.metadata\<close> is \<open>undefined\<close>.
\<close>

definition legacy_setAuthorizationHeader :: "engine \<Rightarrow> (string \<times> jsval) list list option
                                  \<Rightarrow> (string \<rightharpoonup> jsval) \<Rightarrow> string \<Rightarrow> string
                                  \<Rightarrow> js_error + (string \<rightharpoonup> jsval)" where
  "legacy_setAuthorizationHeader e securityMetadataCollection headers path method =
     (case (if this_security e = [] then None else securityMetadataCollection) of
        Some (securityMetadata # others) \<Rightarrow>
          (case find (\<lambda>middlewareKey. middlewareKey \<in> set (map fst securityMetadata))
                  (securityKeys e) of
             None \<Rightarrow> Inl (TypeError ''Cannot read property handler of undefined'')
           | Some securityMiddlewareKey \<Rightarrow>
               (case map_of (this_security e) securityMiddlewareKey of
                  None \<Rightarrow> Inl (TypeError ''Cannot read property handler of undefined'')
                | Some h \<Rightarrow>
                    Inr (headers(''Authorization'' \<mapsto>
                           call h [getProp (JObj securityMetadata) securityMiddlewareKey,
                                   JStr path, JStr method]))))
      | other \<Rightarrow>
          (case this_security e of
             [] \<Rightarrow> Inr headers
           | (k, h) # later \<Rightarrow>
               if forceAuthorizationHeader (this_options e)
               then Inr (headers(''Authorization'' \<mapsto> call h [JNull, JStr path, JStr method]))
               else Inr headers))"

definition legacy_settle :: "externals \<Rightarrow> int \<Rightarrow> jsval \<Rightarrow> outcome \<Rightarrow> run_state \<Rightarrow> run_state" where
  "legacy_settle w successCode successMetadata result s =
     (case result of
        Failed msg \<Rightarrow> s\<lparr>testFails := testFails s + 1\<rparr>
      | Responded status resBody \<Rightarrow>
          if status \<noteq> successCode then s\<lparr>testFails := testFails s + 1\<rparr>
          else if successMetadata = JUndefined \<or> successMetadata = JNull
          then s\<lparr>testFails := testFails s + 1\<rparr>
          else if truthy (getProp successMetadata ''schema'')
                  \<and> \<not> validate w resBody (getProp successMetadata ''schema'')
          then s\<lparr>testFails := testFails s + 1, testPasses := testPasses s + 1\<rparr>
          else s\<lparr>testPasses := testPasses s + 1\<rparr>)"

section \<open>Vocabulary of the statements\<close>

text \<open>
  The status codes a method retains, in the words of the specification: the declared
  response keys that are numbers, below 300 in success-only mode and below 500 otherwise,
  in declaration order.
\<close>

definition retainedCodes :: "options \<Rightarrow> (string \<times> jsval) list \<Rightarrow> int list" where
  "retainedCodes opts rs =
     filter (\<lambda>c. c < (if successCases opts then 300 else 500))
       (List.map_filter parseInt (map fst rs))"

text \<open>A key with neither a registered handler nor an entry of the static dictionary.\<close>

definition unregistered :: "engine \<Rightarrow> string \<Rightarrow> bool" where
  "unregistered e key =
     (map_of (this_requestParams e) key = None
      \<and> (case this_staticParams e of None \<Rightarrow> True | Some dict \<Rightarrow> map_of dict key = None))"

text \<open>A run state with both counters raised.\<close>

definition addCounts :: "nat \<Rightarrow> nat \<Rightarrow> run_state \<Rightarrow> run_state" where
  "addCounts f p s = s\<lparr>testFails := testFails s + f, testPasses := testPasses s + p\<rparr>"



section \<open>Sample contracts and collaborators\<close>

text \<open>
  Concrete inputs for the closed theorems. \<open>sampleFaker\<close> honours the type it is asked for.
  The widget contract is the end-to-end scenario of the specification: \<open>GET /widgets/{id}\<close>,
  security scheme \<open>token_auth\<close>, responses 200 (with a schema) and 404. The system under
  test of \<open>sampleExternals\<close> answers 404 to every request, that of \<open>okExternals\<close> answers 200.
\<close>

definition sampleFaker :: "jsval \<Rightarrow> jsval" where
  "sampleFaker schema =
     (if getProp schema ''type'' = JStr ''string'' then JStr ''lorem''
      else if getProp schema ''type'' = JStr ''integer'' then JNum 7
      else if getProp schema ''type'' = JStr ''number'' then JNum 3
      else if getProp schema ''type'' = JStr ''boolean'' then JBool True
      else if getProp schema ''type'' = JStr ''array'' then JArr []
      else JObj [])"

definition sampleExternals :: externals where
  "sampleExternals =
     \<lparr>fakeResolve = sampleFaker,
      validate = (\<lambda>body schema. True),
      jsonPaths = (\<lambda>object key. []),
      lodashSet = (\<lambda>object path v. object),
      dispatch = (\<lambda>req. Responded 404 (JObj []))\<rparr>"

definition okExternals :: externals where
  "okExternals = sampleExternals\<lparr>dispatch := (\<lambda>req. Responded 200 (JObj []))\<rparr>"

definition rejectingValidator :: externals where
  "rejectingValidator = okExternals\<lparr>validate := (\<lambda>body schema. False)\<rparr>"

definition plainOptions :: options where
  "plainOptions = \<lparr>disable = None, forceAuthorizationHeader = False,
                    notRequiredPropertiesValidation = False, setParamsInBody = False,
                    successHttpCode = None, successCases = False\<rparr>"

definition strictOptions :: options where
  "strictOptions = plainOptions\<lparr>notRequiredPropertiesValidation := True\<rparr>"

definition idParam :: param where
  "idParam = \<lparr>pname = ''id'', pin = ''path'', ptype = JStr ''string'', pschema = JUndefined\<rparr>"

definition widgetMethod :: method_metadata where
  "widgetMethod =
     \<lparr>parameters = Some [idParam],
      responses =
        [(''200'', JObj [(''description'', JStr ''ok''),
                         (''schema'', JObj [(''type'', JStr ''object''),
                                            (''properties'',
                                               JObj [(''name'', JObj [(''type'', JStr ''string'')])])])]),
         (''404'', JObj [(''description'', JStr ''not found'')])],
      security = Some [[(''token_auth'', JArr [])]],
      consumes = None\<rparr>"

definition widgetEngine :: engine where
  "widgetEngine =
     constructor_engine (Some []) [(''/widgets/{id}'', [(''get'', widgetMethod)])] plainOptions"

definition ok200 :: test_case where
  "ok200 = \<lparr>code = 200,
            metadata = JObj [(''description'', JStr ''ok''),
                             (''schema'', JObj [(''type'', JStr ''object''),
                                                (''properties'',
                                                   JObj [(''name'', JObj [(''type'', JStr ''string'')])])])]\<rparr>"

definition notFound404 :: test_case where
  "notFound404 = \<lparr>code = 404, metadata = JObj [(''description'', JStr ''not found'')]\<rparr>"

definition widgetRequest :: request where
  "widgetRequest =
     \<lparr>req_method = ''get'', req_url = ''/widgets/lorem'',
      req_headers = [''Content-Type'' \<mapsto> JStr ''application/json''], req_body = JUndefined\<rparr>"

definition providedEngine :: engine where
  "providedEngine =
     register_staticParams
       (register_params widgetEngine ''id'' (\<lambda>args. JNum 42))
       [(''id'', JStr ''static-id''), (''page'', JNum 2)]"

definition tokenSecurity :: "(string \<times> jsval) list list option" where
  "tokenSecurity = Some [[(''token_auth'', JArr [])]]"

definition securedEngine :: "handler \<Rightarrow> engine" where
  "securedEngine h = register_security widgetEngine ''token_auth'' h"




definition nestedSchema :: jsval where
  "nestedSchema =
     JObj [(''type'', JStr ''object''),
           (''properties'',
              JObj [(''a'', JObj [(''type'', JStr ''object''),
                                  (''properties'', JObj [(''x'', JObj [(''type'', JStr ''string'')])])])])]"

definition arrayOfObjectsSchema :: jsval where
  "arrayOfObjectsSchema =
     JObj [(''type'', JStr ''array''),
           (''items'', JObj [(''type'', JStr ''object''),
                             (''properties'', JObj [(''x'', JObj [(''type'', JStr ''string'')])])])]"

section \<open>The force-required rewrite: what it reaches\<close>

lemma key_never_object: "isObject (JStr key) = False"
  by simp

text \<open>The defining equation, with the dead branch of the callback as the source writes it
  (for an array, \<open>forIn\<close> names each element by its index).\<close>

lemma forceSchemaPropertiesAsRequired_source:
  "forceSchemaPropertiesAsRequired schema =
     (case requireAll schema of
        JObj fs \<Rightarrow>
          JObj (map (\<lambda>(key, val).
                  (key,
                   let val1 = (case val of
                                 JArr els \<Rightarrow>
                                   JArr (map (\<lambda>el. if isObject el
                                                   then forceSchemaPropertiesAsRequired el
                                                   else el) els)
                               | other \<Rightarrow> other)
                   in if isObject (JStr key) then forceSchemaPropertiesAsRequired val1 else val1))
                fs)
      | JArr xs \<Rightarrow>
          JArr (map (\<lambda>(key, val).
                  (let val1 = (case val of
                                 JArr els \<Rightarrow>
                                   JArr (map (\<lambda>el. if isObject el
                                                   then forceSchemaPropertiesAsRequired el
                                                   else el) els)
                               | other \<Rightarrow> other)
                   in if isObject (JStr key) then forceSchemaPropertiesAsRequired val1 else val1))
                (zip (map showNat [0..<length xs]) xs))
      | other \<Rightarrow> other)"
proof -
  have z: "\<And>(f :: jsval \<Rightarrow> jsval) (ks :: string list) xs.
             length ks = length xs \<Longrightarrow> map (\<lambda>(key, val). f val) (zip ks xs) = map f xs"
  proof -
    fix f :: "jsval \<Rightarrow> jsval" and ks :: "string list" and xs :: "jsval list"
    assume "length ks = length xs"
    then show "map (\<lambda>(key, val). f val) (zip ks xs) = map f xs"
      by (induction ks xs rule: list_induct2) auto
  qed
  show ?thesis
    by (subst forceSchemaPropertiesAsRequired.simps) (simp add: z Let_def split: jsval.splits)
qed

lemma map_of_assign: "map_of (assign fs k v) k = Some v"
  by (induction fs) auto

lemma requireAll_required:
  "truthy (getProp (JObj fs) ''properties'') \<Longrightarrow>
   getProp (requireAll (JObj fs)) ''required''
     = JArr (map JStr (getOwnPropertyNames (getProp (JObj fs) ''properties'')))"
  by (simp add: requireAll_def map_of_assign)

lemma force_keeps_string_arrays:
  "getProp (JObj fs) k = JArr (map JStr names) \<Longrightarrow>
   getProp (JObj (map (\<lambda>(key, val).
                  (key,
                   case val of
                     JArr els \<Rightarrow>
                       JArr (map (\<lambda>el. if isObject el
                                       then forceSchemaPropertiesAsRequired el else el) els)
                   | other \<Rightarrow> other)) fs)) k = JArr (map JStr names)"
proof (induction fs)
  case Nil
  then show ?case by simp
next
  case (Cons a fs)
  obtain k' v' where a: "a = (k', v')" by (cases a)
  show ?case
  proof (cases "k' = k")
    case True
    with Cons.prems a have "v' = JArr (map JStr names)" by simp
    with True a show ?thesis by (simp add: comp_def)
  next
    case False
    with Cons a show ?thesis by simp
  qed
qed

text \<open>At the top level the rewrite does what the specification says: \<open>required\<close> becomes
  the list of all property names.\<close>

lemma force_required_top_level:
  assumes "truthy (getProp (JObj fs) ''properties'')"
  shows "getProp (forceSchemaPropertiesAsRequired (JObj fs)) ''required''
           = JArr (map JStr (getOwnPropertyNames (getProp (JObj fs) ''properties'')))"
proof -
  obtain fs' where r: "requireAll (JObj fs) = JObj fs'"
    using assms by (simp add: requireAll_def)
  have "getProp (JObj fs') ''required''
          = JArr (map JStr (getOwnPropertyNames (getProp (JObj fs) ''properties'')))"
    using requireAll_required [OF assms] r by simp
  then show ?thesis
    by (subst forceSchemaPropertiesAsRequired.simps)
       (simp only: r jsval.case force_keeps_string_arrays)
qed

text \<open>The example of the specification: \<open>{properties: {a, b}}\<close> gets
  \<open>required == ["a", "b"]\<close>.\<close>

lemma force_required_spec_example:
  "getProp (forceSchemaPropertiesAsRequired
             (JObj [(''properties'', JObj [(''a'', JObj []), (''b'', JObj [])])])) ''required''
     = JArr [JStr ''a'', JStr ''b'']"
  using force_required_top_level [of "[(''properties'', JObj [(''a'', JObj []), (''b'', JObj [])])]"]
  by simp

text \<open>The recursion that does run goes through array-valued keywords (\<open>allOf\<close>, \<open>anyOf\<close>,
  a tuple-form \<open>items\<close>): an object that is an element of an array is rewritten.\<close>

lemma force_required_through_arrays:
  "forceSchemaPropertiesAsRequired
     (JObj [(''allOf'', JArr [JObj [(''properties'', JObj [(''x'', JObj [])])]])])
   = JObj [(''allOf'', JArr [JObj [(''properties'', JObj [(''x'', JObj [])]),
                                   (''required'', JArr [JStr ''x''])]])]"
  by (simp add: forceSchemaPropertiesAsRequired.simps requireAll_def)

lemma assign_set:
  "(key, val) \<in> set (assign fs k v) \<Longrightarrow> (key, val) \<in> set fs \<or> val = v"
  by (induction fs) (auto split: if_splits)

text \<open>In general: on an object schema none of whose property values is an array, the
  rewrite is its first statement and nothing more, however deep the schema is.\<close>

lemma force_without_arrays_is_top_level_only:
  assumes "\<And>key val. (key, val) \<in> set fs \<Longrightarrow> \<not> isArray val"
  shows "forceSchemaPropertiesAsRequired (JObj fs) = requireAll (JObj fs)"
proof -
  let ?visit = "\<lambda>val. case val of
                   JArr els \<Rightarrow> JArr (map (\<lambda>el. if isObject el
                                          then forceSchemaPropertiesAsRequired el else el) els)
                 | other \<Rightarrow> other"
  obtain fs' where r: "requireAll (JObj fs) = JObj fs'"
    by (cases "truthy (getProp (JObj fs) ''properties'')") (simp_all add: requireAll_def)
  have same: "?visit val = val" if "(key, val) \<in> set fs'" for key val
  proof -
    from r that have "(key, val) \<in> set fs
        \<or> val = JArr (map JStr (getOwnPropertyNames (getProp (JObj fs) ''properties'')))"
      by (auto simp: requireAll_def split: if_splits dest: assign_set)
    then show ?thesis
    proof
      assume "(key, val) \<in> set fs"
      from assms [OF this] show ?thesis by (cases val) simp_all
    next
      assume "val = JArr (map JStr (getOwnPropertyNames (getProp (JObj fs) ''properties'')))"
      then show ?thesis by (simp add: comp_def)
    qed
  qed
  have "map (\<lambda>(key, val). (key, ?visit val)) fs' = fs'"
    by (rule map_idI) (auto simp: same)
  then show ?thesis
    by (subst forceSchemaPropertiesAsRequired.simps) (simp only: r jsval.case)
qed

text \<open>
  Claim C5. With the force-required option on, \<open>required\<close> should become the full
  property-name set at the top level and in every nested object sub-schema: object
  sub-schemas under \<open>properties\<close> and object element schemas of arrays. The code sets it at
  the top level only. For the schema
  \<open>{type: object, properties: {a: {type: object, properties: {x: {type: string}}}}}\<close> the
  result has \<open>required == ["a"]\<close> at the top and the sub-schema of \<open>a\<close> is left without
  \<open>required\<close>; the schema \<open>{type: array, items: {type: object, properties: {x: ...}}}\<close> comes
  back unchanged. The callback tests the property name, not its value, for being an object.
\<close>

theorem force_required_skips_nested_schemas:
  "forceSchemaPropertiesAsRequired nestedSchema =
     JObj [(''type'', JStr ''object''),
           (''properties'',
              JObj [(''a'', JObj [(''type'', JStr ''object''),
                                  (''properties'', JObj [(''x'', JObj [(''type'', JStr ''string'')])])])]),
           (''required'', JArr [JStr ''a''])]
   \<and> getProp (getProp (getProp (forceSchemaPropertiesAsRequired nestedSchema) ''properties'') ''a'')
         ''required'' = JUndefined
   \<and> forceSchemaPropertiesAsRequired arrayOfObjectsSchema = arrayOfObjectsSchema"
  by (simp add: nestedSchema_def arrayOfObjectsSchema_def forceSchemaPropertiesAsRequired.simps
        requireAll_def)

section \<open>The planner: one case per retained status code\<close>

lemma planCases_codes:
  "planCases opts rs cs = Inr tcs \<Longrightarrow> map code tcs = List.map_filter id cs"
proof (induction cs arbitrary: tcs)
  case Nil
  then show ?case by simp
next
  case (Cons c cs)
  show ?case
  proof (cases c)
    case None
    with Cons show ?thesis by simp
  next
    case (Some statusCode)
    with Cons.prems obtain rest where
      rest: "planCases opts rs cs = Inr rest" and "code (hd tcs) = statusCode"
        "tcs \<noteq> []" "tl tcs = rest"
      by (auto simp: Let_def split: if_splits sum.splits)
    with Cons.IH [OF rest] Some show ?thesis
      by (cases tcs) auto
  qed
qed

lemma planCases_total:
  assumes "notRequiredPropertiesValidation opts \<Longrightarrow>
           \<forall>c \<in> set (List.map_filter id cs).
             getProp (JObj rs) (showInt c) \<noteq> JUndefined \<and> getProp (JObj rs) (showInt c) \<noteq> JNull"
  shows "\<exists>tcs. planCases opts rs cs = Inr tcs"
  using assms
proof (induction cs)
  case Nil
  then show ?case by simp
next
  case (Cons c cs)
  have "\<exists>tcs. planCases opts rs cs = Inr tcs"
    using Cons by (cases c) auto
  then obtain rest where rest: "planCases opts rs cs = Inr rest" by blast
  show ?case
  proof (cases c)
    case None
    with rest show ?thesis by simp
  next
    case (Some statusCode)
    with Cons.prems rest show ?thesis
      by (auto simp: Let_def)
  qed
qed

lemma filter_below:
  "List.map_filter id (filter (\<lambda>sc. case sc of None \<Rightarrow> False | Some c \<Rightarrow> c < n) (map f ks))
     = filter (\<lambda>c. c < n) (List.map_filter f ks)"
  by (induction ks) (auto split: option.splits)

lemma filter_belowLimit:
  "List.map_filter id (filter (belowLimit opts) (map parseInt ks))
     = filter (\<lambda>c. c < (if successCases opts then 300 else 500)) (List.map_filter parseInt ks)"
proof -
  have "belowLimit opts
          = (\<lambda>sc. case sc of None \<Rightarrow> False
                   | Some c \<Rightarrow> c < (if successCases opts then 300 else 500))"
    by (rule ext) (simp add: belowLimit_def)
  then show ?thesis by (simp only: filter_below)
qed

text \<open>
  Claim C6. For every method the planner yields exactly one test case per declared response
  status code that passes the filter (below 300 in success-only mode, below 500 otherwise),
  in declaration order; when no code survives, also when no response is declared, it yields
  exactly one default case, at \<open>successHttpCode\<close> if that is configured (a configured 0 is
  falsy and counts as none) and at 200 otherwise. The planner returns: the one way it can
  throw is the rewrite of a response it cannot find, which needs the rewrite enabled and a
  retained key that is not the decimal text of its number (such as \<open>099\<close>), so the premise
  asks that each retained code has its response when the rewrite is on.
\<close>

theorem planner_one_case_per_retained_code:
  assumes "notRequiredPropertiesValidation opts \<Longrightarrow>
           \<forall>c \<in> set (retainedCodes opts rs).
             getProp (JObj rs) (showInt c) \<noteq> JUndefined \<and> getProp (JObj rs) (showInt c) \<noteq> JNull"
  shows "\<exists>tcs. getGetMethodTestCases opts rs = Inr tcs
           \<and> (if retainedCodes opts rs \<noteq> []
               then map code tcs = retainedCodes opts rs
                    \<and> length tcs = length (retainedCodes opts rs)
               else tcs = [\<lparr>code = (case successHttpCode opts of
                                       None \<Rightarrow> 200
                                     | Some c \<Rightarrow> if c = 0 then 200 else c),
                             metadata = JUndefined\<rparr>])"
proof -
  let ?cs = "filter (belowLimit opts) (map parseInt (map fst rs))"
  have ret: "List.map_filter id ?cs = retainedCodes opts rs"
    by (simp only: filter_belowLimit retainedCodes_def)
  have "\<exists>tcs. planCases opts rs ?cs = Inr tcs"
  proof (rule planCases_total)
    assume "notRequiredPropertiesValidation opts"
    from assms [OF this]
    show "\<forall>c \<in> set (List.map_filter id ?cs).
            getProp (JObj rs) (showInt c) \<noteq> JUndefined \<and> getProp (JObj rs) (showInt c) \<noteq> JNull"
      by (simp only: ret)
  qed
  then obtain tcs where tcs: "planCases opts rs ?cs = Inr tcs" by blast
  from planCases_codes [OF tcs] ret have codes: "map code tcs = retainedCodes opts rs" by simp
  then have len: "length tcs = length (retainedCodes opts rs)"
    by (metis length_map)
  show ?thesis
  proof (cases "retainedCodes opts rs = []")
    case True
    with codes have "tcs = []" by simp
    with tcs True show ?thesis
      by (auto simp: getGetMethodTestCases_def DEFAULT_SUCCESS_CODE_def split: option.splits)
  next
    case False
    with codes have "tcs \<noteq> []" by auto
    with tcs codes len False show ?thesis
      by (simp add: getGetMethodTestCases_def)
  qed
qed

text \<open>Witness for C6: the widget method with the rewrite on retains 200 and 404 and gets
  two cases; a method that declares only 500 and \<open>default\<close>, with \<open>successHttpCode\<close> 201, gets
  the one default case at 201.\<close>

theorem planner_one_case_per_retained_code_witness:
  "(\<exists>tcs. getGetMethodTestCases strictOptions (responses widgetMethod) = Inr tcs
          \<and> map code tcs = [200, 404] \<and> length tcs = 2)
   \<and> (\<exists>tcs. getGetMethodTestCases (plainOptions\<lparr>successHttpCode := Some 201\<rparr>)
                [(''500'', JObj []), (''default'', JObj [])] = Inr tcs
          \<and> tcs = [\<lparr>code = 201, metadata = JUndefined\<rparr>])"
proof -
  have r1: "retainedCodes strictOptions (responses widgetMethod) = [200, 404]"
    by (simp add: retainedCodes_def strictOptions_def plainOptions_def widgetMethod_def
          parseInt_def digitValue_def isWhiteSpace_def)
  have r2: "retainedCodes (plainOptions\<lparr>successHttpCode := Some 201\<rparr>)
              [(''500'', JObj []), (''default'', JObj [])] = []"
    by (simp add: retainedCodes_def plainOptions_def parseInt_def digitValue_def isWhiteSpace_def)
  have l: "showInt 200 = ''200''" "showInt 404 = ''404''"
    by (simp_all add: showInt_def showNat.simps)
  have p1: "\<forall>c \<in> set (retainedCodes strictOptions (responses widgetMethod)).
              getProp (JObj (responses widgetMethod)) (showInt c) \<noteq> JUndefined
              \<and> getProp (JObj (responses widgetMethod)) (showInt c) \<noteq> JNull"
    unfolding r1 by (simp add: l widgetMethod_def)
  have p2: "\<forall>c \<in> set (retainedCodes (plainOptions\<lparr>successHttpCode := Some 201\<rparr>)
                         [(''500'', JObj []), (''default'', JObj [])]).
              getProp (JObj [(''500'', JObj []), (''default'', JObj [])]) (showInt c) \<noteq> JUndefined
              \<and> getProp (JObj [(''500'', JObj []), (''default'', JObj [])]) (showInt c) \<noteq> JNull"
    by (simp add: r2)
  from planner_one_case_per_retained_code [of strictOptions "responses widgetMethod", OF p1]
  have a: "\<exists>tcs. getGetMethodTestCases strictOptions (responses widgetMethod) = Inr tcs
             \<and> map code tcs = [200, 404] \<and> length tcs = 2"
    by (auto simp: r1)
  from planner_one_case_per_retained_code
         [of "plainOptions\<lparr>successHttpCode := Some 201\<rparr>"
             "[(''500'', JObj []), (''default'', JObj [])]", OF p2]
  have b: "\<exists>tcs. getGetMethodTestCases (plainOptions\<lparr>successHttpCode := Some 201\<rparr>)
                  [(''500'', JObj []), (''default'', JObj [])] = Inr tcs
             \<and> tcs = [\<lparr>code = 201, metadata = JUndefined\<rparr>]"
    by (simp add: r2)
  from a b show ?thesis by blast
qed

section \<open>The parameter resolver: precedence and type inversion\<close>

text \<open>
  Claim C2, as the code has it. For a parameter with no registered handler and no static
  entry whose declared type is known, resolution synthesizes a wrong-typed fake value by the
  inversion table when the target status code is exactly 400 (the source tests
  \<open>statusCode === 400\<close>, not the 400 class): declared integer, number, boolean, array or
  object yields a string; declared string yields an integer; any other declared type yields
  a string.
\<close>

theorem type_inversion_at_400:
  assumes "unregistered e key" and "truthy t"
  shows "(t = JStr ''integer'' \<or> t = JStr ''number'' \<or> t = JStr ''boolean''
            \<or> t = JStr ''array'' \<or> t = JStr ''object''
          \<longrightarrow> getParamValue w e key t 400 args = fakeResolve w (JObj [(''type'', JStr ''string'')]))
       \<and> (t = JStr ''string''
          \<longrightarrow> getParamValue w e key t 400 args = fakeResolve w (JObj [(''type'', JStr ''integer'')]))
       \<and> (t \<noteq> JStr ''integer'' \<and> t \<noteq> JStr ''number'' \<and> t \<noteq> JStr ''boolean''
            \<and> t \<noteq> JStr ''array'' \<and> t \<noteq> JStr ''object'' \<and> t \<noteq> JStr ''string''
          \<longrightarrow> getParamValue w e key t 400 args = fakeResolve w (JObj [(''type'', JStr ''string'')]))"
  using assms
  by (auto simp: unregistered_def getParamValue_def generateErrorParam_def invertType_def
           split: option.splits)

text \<open>Witness for C2: on the widget engine, which registers nothing, at status 400 a
  declared integer resolves to the faker's string, a declared string to its integer, and
  the unknown type \<open>file\<close> to its string.\<close>

theorem type_inversion_at_400_witness:
  "getParamValue sampleExternals widgetEngine ''age'' (JStr ''integer'') 400 [] = JStr ''lorem''
   \<and> getParamValue sampleExternals widgetEngine ''q'' (JStr ''string'') 400 [] = JNum 7
   \<and> getParamValue sampleExternals widgetEngine ''f'' (JStr ''file'') 400 [] = JStr ''lorem''"
proof -
  have u: "\<And>k. unregistered widgetEngine k"
    by (simp add: unregistered_def widgetEngine_def constructor_engine_def)
  have f: "fakeResolve sampleExternals (JObj [(''type'', JStr ''string'')]) = JStr ''lorem''"
       "fakeResolve sampleExternals (JObj [(''type'', JStr ''integer'')]) = JNum 7"
    by (simp_all add: sampleExternals_def sampleFaker_def)
  show ?thesis
    using type_inversion_at_400 [OF u, of "JStr ''integer''" sampleExternals "''age''" "[]"]
          type_inversion_at_400 [OF u, of "JStr ''string''" sampleExternals "''q''" "[]"]
          type_inversion_at_400 [OF u, of "JStr ''file''" sampleExternals "''f''" "[]"]
    by (simp add: f)
qed

text \<open>Counterexample to C2 as stated: 404 is a client-error status, yet the unregistered
  parameter \<open>age\<close> declared integer resolves to a fake value of type integer, not to a
  string.\<close>

theorem inversion_not_applied_at_404:
  "getParamValue sampleExternals widgetEngine ''age'' (JStr ''integer'') 404
       [JStr ''/people'', JStr ''post'']
     = fakeResolve sampleExternals (JObj [(''type'', JStr ''integer'')])
   \<and> getParamValue sampleExternals widgetEngine ''age'' (JStr ''integer'') 404
       [JStr ''/people'', JStr ''post'']
     \<noteq> fakeResolve sampleExternals (JObj [(''type'', JStr ''string'')])"
  by (simp add: getParamValue_def generateErrorParam_def widgetEngine_def constructor_engine_def
        sampleExternals_def sampleFaker_def)

text \<open>
  Claim C3, as the code has it. For every parameter key, value resolution tries in this
  order, first match winning: (1) the handler registered for the key, called with the
  arguments of the call site; (2) the entry of the static dictionary; (3) when the declared
  type is known, a synthetic value: type-inverted when the target status code is exactly
  400, of the declared type itself at every other status code; (4) only when the declared
  type is unknown the parameter resolves to \<open>undefined\<close>.
\<close>

theorem resolution_precedence:
  "(map_of (this_requestParams e) key = Some h
      \<longrightarrow> getParamValue w e key t statusCode args = h args)
   \<and> (map_of (this_requestParams e) key = None \<and> this_staticParams e = Some dict
        \<and> map_of dict key = Some v
      \<longrightarrow> getParamValue w e key t statusCode args = v)
   \<and> (unregistered e key \<and> truthy t \<and> statusCode = 400
      \<longrightarrow> getParamValue w e key t statusCode args = fakeResolve w (JObj [(''type'', invertType t)]))
   \<and> (unregistered e key \<and> truthy t \<and> statusCode \<noteq> 400
      \<longrightarrow> getParamValue w e key t statusCode args = fakeResolve w (JObj [(''type'', t)]))
   \<and> (unregistered e key \<and> \<not> truthy t
      \<longrightarrow> getParamValue w e key t statusCode args = JUndefined)"
  by (auto simp: unregistered_def getParamValue_def generateErrorParam_def call_def
           split: option.splits)

text \<open>Witness for C3: an engine with a handler for \<open>id\<close> and static entries for \<open>id\<close> and
  \<open>page\<close>. The handler wins for \<open>id\<close>, the dictionary for \<open>page\<close>; \<open>age\<close> has neither and is
  synthesized, inverted at 400 and as declared at 404; with no type it is \<open>undefined\<close>.\<close>

theorem resolution_precedence_witness:
  "getParamValue sampleExternals providedEngine ''id'' (JStr ''string'') 400 [] = JNum 42
   \<and> getParamValue sampleExternals providedEngine ''page'' (JStr ''integer'') 400 [] = JNum 2
   \<and> getParamValue sampleExternals providedEngine ''age'' (JStr ''integer'') 400 [] = JStr ''lorem''
   \<and> getParamValue sampleExternals providedEngine ''age'' (JStr ''integer'') 404 [] = JNum 7
   \<and> getParamValue sampleExternals providedEngine ''age'' JUndefined 400 [] = JUndefined"
proof -
  have e: "map_of (this_requestParams providedEngine) ''id'' = Some (\<lambda>args. JNum 42)"
          "map_of (this_requestParams providedEngine) ''page'' = None"
          "this_staticParams providedEngine = Some [(''id'', JStr ''static-id''), (''page'', JNum 2)]"
          "unregistered providedEngine ''age''"
    by (simp_all add: providedEngine_def register_staticParams_def register_params_def
          widgetEngine_def constructor_engine_def unregistered_def)
  have f: "fakeResolve sampleExternals (JObj [(''type'', JStr ''string'')]) = JStr ''lorem''"
       "fakeResolve sampleExternals (JObj [(''type'', JStr ''integer'')]) = JNum 7"
    by (simp_all add: sampleExternals_def sampleFaker_def)
  show ?thesis
    using resolution_precedence [of providedEngine "''id''" "\<lambda>args. JNum 42" sampleExternals
            "JStr ''string''" 400 "[]"]
          resolution_precedence [of providedEngine "''page''" _ sampleExternals
            "JStr ''integer''" 400 "[]" "[(''id'', JStr ''static-id''), (''page'', JNum 2)]" "JNum 2"]
          resolution_precedence [of providedEngine "''age''" _ sampleExternals
            "JStr ''integer''" 400 "[]"]
          resolution_precedence [of providedEngine "''age''" _ sampleExternals
            "JStr ''integer''" 404 "[]"]
          resolution_precedence [of providedEngine "''age''" _ sampleExternals
            "JUndefined" 400 "[]"]
    by (simp add: e f invertType_def)
qed

text \<open>Counterexample to C3 as stated: at status 200, outside the 400 class, an unregistered
  parameter with a declared type does not resolve to \<open>undefined\<close>; and at 404, inside the 400
  class, the value synthesized for a declared boolean is not the type-inverted one.\<close>

theorem typed_parameter_not_absent_at_200:
  "getParamValue sampleExternals widgetEngine ''id'' (JStr ''string'') 200
       [JStr ''/widgets/{id}'', JStr ''get''] = JStr ''lorem''
   \<and> getParamValue sampleExternals widgetEngine ''id'' (JStr ''string'') 200
       [JStr ''/widgets/{id}'', JStr ''get''] \<noteq> JUndefined
   \<and> getParamValue sampleExternals widgetEngine ''flag'' (JStr ''boolean'') 404
       [JStr ''/widgets/{id}'', JStr ''get'']
     \<noteq> fakeResolve sampleExternals (JObj [(''type'', invertType (JStr ''boolean''))])"
  by (simp add: getParamValue_def generateErrorParam_def widgetEngine_def constructor_engine_def
        sampleExternals_def sampleFaker_def invertType_def)

section \<open>The URL of the widget scenario\<close>

lemma getSubstitution_plain:
  "CHR ''$'' \<notin> set r \<Longrightarrow> getSubstitution matched before after r = r"
  by (induction matched before after r rule: getSubstitution.induct) auto

lemma replace_widget_id:
  "replace ''/widgets/{id}'' ''{id}'' r = ''/widgets/'' @ getSubstitution ''{id}'' ''/widgets/'' [] r"
  by (simp add: replace_def)

text \<open>Even a parameter that does resolve to \<open>undefined\<close> is not left out of the URL:
  \<open>replace\<close> converts its second argument to a string.\<close>

lemma absent_value_is_spliced_as_text:
  "replace ''/widgets/{id}'' ''{id}'' (toStr JUndefined) = ''/widgets/undefined''"
  by (simp add: replace_def)

text \<open>
  Claim C4, as the code has it. In a run over the contract with path \<open>/widgets/{id}\<close> (GET)
  declaring responses 200 and 404, for the 404 test case with parameter \<open>id\<close> declared
  \<open>in = path\<close> and \<open>type = string\<close> and no handler or static entry registered for \<open>id\<close>, \<open>id\<close>
  resolves to a generated value of the declared type string (the inversion applies at 400
  only), and the \<open>{id}\<close> placeholder of the URL built for that case is replaced by the text
  of that value (with the \<open>$\<close> patterns of \<open>replace\<close> expanded, if the text has any).
\<close>

theorem widget_404_url:
  assumes "unregistered e ''id''"
  shows "getParamValue w e ''id'' (JStr ''string'') 404 [JStr ''/widgets/{id}'', JStr ''get'']
           = fakeResolve w (JObj [(''type'', JStr ''string'')])
       \<and> buildUrl w e ''/widgets/{id}'' ''get''
            (Some [\<lparr>pname = ''id'', pin = ''path'', ptype = JStr ''string'', pschema = sch\<rparr>]) 404
           = ''/widgets/'' @ getSubstitution ''{id}'' ''/widgets/'' []
                               (toStr (fakeResolve w (JObj [(''type'', JStr ''string'')])))
       \<and> (CHR ''$'' \<notin> set (toStr (fakeResolve w (JObj [(''type'', JStr ''string'')])))
          \<longrightarrow> buildUrl w e ''/widgets/{id}'' ''get''
                (Some [\<lparr>pname = ''id'', pin = ''path'', ptype = JStr ''string'', pschema = sch\<rparr>]) 404
              = ''/widgets/'' @ toStr (fakeResolve w (JObj [(''type'', JStr ''string'')])))"
proof -
  have v: "getParamValue w e ''id'' (JStr ''string'') 404 [JStr ''/widgets/{id}'', JStr ''get'']
             = fakeResolve w (JObj [(''type'', JStr ''string'')])"
    using assms
    by (auto simp: unregistered_def getParamValue_def generateErrorParam_def split: option.splits)
  have u: "buildUrl w e ''/widgets/{id}'' ''get''
            (Some [\<lparr>pname = ''id'', pin = ''path'', ptype = JStr ''string'', pschema = sch\<rparr>]) 404
           = ''/widgets/'' @ getSubstitution ''{id}'' ''/widgets/'' []
                               (toStr (fakeResolve w (JObj [(''type'', JStr ''string'')])))"
    by (simp add: buildUrl_def v replace_widget_id Let_def)
  show ?thesis
    using v u by (simp add: getSubstitution_plain)
qed

text \<open>Witness for C4: the widget engine registers nothing for \<open>id\<close>; with the sample faker
  the value is \<open>lorem\<close> and the URL \<open>/widgets/lorem\<close>.\<close>

theorem widget_404_url_witness:
  "getParamValue sampleExternals widgetEngine ''id'' (JStr ''string'') 404
       [JStr ''/widgets/{id}'', JStr ''get''] = JStr ''lorem''
   \<and> buildUrl sampleExternals widgetEngine ''/widgets/{id}'' ''get''
        (Some [\<lparr>pname = ''id'', pin = ''path'', ptype = JStr ''string'', pschema = JUndefined\<rparr>]) 404
       = ''/widgets/lorem''"
proof -
  have u: "unregistered widgetEngine ''id''"
    by (simp add: unregistered_def widgetEngine_def constructor_engine_def)
  have f: "fakeResolve sampleExternals (JObj [(''type'', JStr ''string'')]) = JStr ''lorem''"
    by (simp add: sampleExternals_def sampleFaker_def)
  show ?thesis
    using widget_404_url [OF u, of sampleExternals JUndefined] by (simp add: f)
qed

text \<open>Counterexample to C4 as stated: in that scenario \<open>id\<close> does not resolve to
  \<open>undefined\<close> and the URL built for the 404 case is not the template with its placeholder.\<close>

theorem widget_404_placeholder_replaced:
  "getParamValue sampleExternals widgetEngine ''id'' (JStr ''string'') 404
       [JStr ''/widgets/{id}'', JStr ''get''] \<noteq> JUndefined
   \<and> buildUrl sampleExternals widgetEngine ''/widgets/{id}'' ''get'' (parameters widgetMethod) 404
       = ''/widgets/lorem''
   \<and> buildUrl sampleExternals widgetEngine ''/widgets/{id}'' ''get'' (parameters widgetMethod) 404
       \<noteq> ''/widgets/{id}''"
  by (simp add: buildUrl_def getParamValue_def generateErrorParam_def widgetEngine_def
        constructor_engine_def sampleExternals_def sampleFaker_def widgetMethod_def idParam_def
        replace_def)

section \<open>The security resolver: handler results and a missing handler\<close>

lemma foldl_upd_map_add:
  "distinct (map fst fs) \<Longrightarrow> foldl (\<lambda>h (k, v). h(k \<mapsto> v)) headers fs = headers ++ map_of fs"
proof (induction fs arbitrary: headers)
  case Nil
  then show ?case by simp
next
  case (Cons a fs)
  obtain k v where a: "a = (k, v)" by (cases a)
  from Cons.prems a have d: "distinct (map fst fs)" and k: "k \<notin> fst ` set fs" by auto
  have "foldl (\<lambda>h (k, v). h(k \<mapsto> v)) headers (a # fs)
          = foldl (\<lambda>h (k, v). h(k \<mapsto> v)) (headers(k \<mapsto> v)) fs"
    using a by simp
  also have "\<dots> = (headers(k \<mapsto> v)) ++ map_of fs"
    by (rule Cons.IH [OF d])
  also have "\<dots> = headers ++ map_of (a # fs)"
  proof (rule ext)
    fix x
    have kn: "map_of fs k = None"
      using k by (simp add: map_of_eq_None_iff)
    show "((headers(k \<mapsto> v)) ++ map_of fs) x = (headers ++ map_of (a # fs)) x"
      using kn a by (auto simp: map_add_def split: option.splits)
  qed
  finally show ?case .
qed

text \<open>The values that are neither an object for lodash nor a string.\<close>

lemma not_object_not_string:
  "(\<not> isObject v \<and> \<not> isString v)
     = (v = JUndefined \<or> v = JNull \<or> (\<exists>b. v = JBool b) \<or> (\<exists>n. v = JNum n))"
  by (cases v) auto

lemma select_secured: "selectMiddleware (securedEngine h) tokenSecurity = Selected h (JArr [])"
  by (simp add: selectMiddleware_def securedEngine_def register_security_def widgetEngine_def
        constructor_engine_def tokenSecurity_def securityKeys_def)

text \<open>
  Claim C7, as the code has it. For every invoked security handler: if it returns a string,
  the header map gains exactly the \<open>Authorization\<close> header set to that string; if it returns
  a plain object, exactly the object's keys are added as headers with their values; if it
  returns an array, which lodash also counts as an object, no error is raised and the
  array's indices become header names; if it returns anything else (\<open>undefined\<close>, \<open>null\<close>, a
  boolean, a number), an explicit error is raised for that case and no headers come back.
\<close>

theorem security_handler_result:
  assumes "selectMiddleware e coll = Selected h md"
  shows "(h [md, JStr path, JStr method, JNum statusCode] = JStr s
            \<longrightarrow> setSecurityHeader e coll headers path method statusCode
                  = Inr (headers(''Authorization'' \<mapsto> JStr s)))
       \<and> (h [md, JStr path, JStr method, JNum statusCode] = JObj fs \<and> distinct (map fst fs)
            \<longrightarrow> setSecurityHeader e coll headers path method statusCode
                  = Inr (headers ++ map_of fs))
       \<and> (h [md, JStr path, JStr method, JNum statusCode] = JArr xs
            \<longrightarrow> setSecurityHeader e coll headers path method statusCode
                  = Inr (objectAssign headers (JArr xs)))
       \<and> (\<not> isObject (h [md, JStr path, JStr method, JNum statusCode])
            \<and> \<not> isString (h [md, JStr path, JStr method, JNum statusCode])
            \<longrightarrow> setSecurityHeader e coll headers path method statusCode
                  = Inl (UnsupportedSecurityValue (h [md, JStr path, JStr method, JNum statusCode])))"
  using assms
  by (auto simp: setSecurityHeader_def call_def Let_def foldl_upd_map_add)

text \<open>Witness for C7: the widget engine with a handler for \<open>token_auth\<close> that returns a
  string, an object of two headers, an array, a number.\<close>

theorem security_handler_result_witness:
  "setSecurityHeader (securedEngine (\<lambda>args. JStr ''Bearer t'')) tokenSecurity Map.empty
       ''/widgets/{id}'' ''get'' 200
     = Inr [''Authorization'' \<mapsto> JStr ''Bearer t'']
   \<and> setSecurityHeader (securedEngine (\<lambda>args. JObj [(''X-Key'', JStr ''k''), (''X-User'', JStr ''u'')]))
       tokenSecurity Map.empty ''/widgets/{id}'' ''get'' 200
     = Inr (Map.empty ++ map_of [(''X-Key'', JStr ''k''), (''X-User'', JStr ''u'')])
   \<and> setSecurityHeader (securedEngine (\<lambda>args. JArr [JStr ''x''])) tokenSecurity Map.empty
       ''/widgets/{id}'' ''get'' 200
     = Inr (objectAssign Map.empty (JArr [JStr ''x'']))
   \<and> setSecurityHeader (securedEngine (\<lambda>args. JNum 5)) tokenSecurity Map.empty
       ''/widgets/{id}'' ''get'' 200
     = Inl (UnsupportedSecurityValue (JNum 5))"
  using security_handler_result [OF select_secured, of "\<lambda>args. JStr ''Bearer t''" "''/widgets/{id}''"
          "''get''" 200 "''Bearer t''" Map.empty]
        security_handler_result [OF select_secured,
          of "\<lambda>args. JObj [(''X-Key'', JStr ''k''), (''X-User'', JStr ''u'')]" "''/widgets/{id}''"
          "''get''" 200 _ Map.empty "[(''X-Key'', JStr ''k''), (''X-User'', JStr ''u'')]"]
        security_handler_result [OF select_secured, of "\<lambda>args. JArr [JStr ''x'']" "''/widgets/{id}''"
          "''get''" 200 _ Map.empty _ "[JStr ''x'']"]
        security_handler_result [OF select_secured, of "\<lambda>args. JNum 5" "''/widgets/{id}''"
          "''get''" 200 _ Map.empty]
  by simp

text \<open>Counterexample to C7 as stated: a handler that returns the array \<open>['x']\<close>, neither a
  string nor a plain object, raises no error; the headers gain the key \<open>0\<close>.\<close>

theorem array_result_raises_no_error:
  "(case setSecurityHeader (securedEngine (\<lambda>args. JArr [JStr ''x''])) tokenSecurity Map.empty
           ''/widgets/{id}'' ''get'' 200 of
      Inl err \<Rightarrow> False
    | Inr headers \<Rightarrow> headers ''0'' = Some (JStr ''x'') \<and> headers ''Authorization'' = None)"
  by (simp add: setSecurityHeader_def select_secured call_def showNat.simps)

text \<open>
  Claim C10. If at least one security handler is registered and the endpoint declares a
  non-empty security requirement list whose first entry names no scheme with a registered
  handler, then header resolution throws (the lookup yields \<open>undefined\<close> and reading its
  \<open>handler\<close> fails): the headers are not returned unchanged and the later entries are not
  tried, whatever they are. The error leaves \<open>_getRequestHeaders\<close> and \<open>_testCase\<close> as it
  is, before any request goes out.
\<close>

theorem unmatched_first_requirement_throws:
  assumes "this_security e \<noteq> []"
      and "\<forall>k \<in> set (securityKeys e). k \<notin> set (map fst first)"
  shows "setSecurityHeader e (Some (first # others)) headers path method statusCode
           = Inl (TypeError ''Cannot read property handler of undefined'')
       \<and> getRequestHeaders e (md\<lparr>security := Some (first # others)\<rparr>) path method statusCode
           = Inl (TypeError ''Cannot read property handler of undefined'')
       \<and> testCase w e method path (md\<lparr>security := Some (first # others)\<rparr>) tc s
           = (s, Some (TypeError ''Cannot read property handler of undefined''))"
proof -
  have "find (\<lambda>middlewareKey. middlewareKey \<in> set (map fst first)) (securityKeys e) = None"
    using assms(2) by (simp add: find_None_iff)
  with assms(1) have sel: "selectMiddleware e (Some (first # others)) = Missing"
    by (simp add: selectMiddleware_def)
  then have ssh: "\<And>hs p m c. setSecurityHeader e (Some (first # others)) hs p m c
           = Inl (TypeError ''Cannot read property handler of undefined'')"
    by (simp add: setSecurityHeader_def)
  then show ?thesis
    by (simp add: getRequestHeaders_def testCase_def prepareRequest_def)
qed

text \<open>Witness for C10: a handler is registered for \<open>token_auth\<close>; the method requires
  \<open>api_key\<close> first and \<open>token_auth\<close> second. The second entry is not tried.\<close>

theorem unmatched_first_requirement_throws_witness:
  "setSecurityHeader (securedEngine (\<lambda>args. JStr ''Bearer t''))
       (Some [[(''api_key'', JArr [])], [(''token_auth'', JArr [])]]) Map.empty
       ''/widgets/{id}'' ''get'' 200
     = Inl (TypeError ''Cannot read property handler of undefined'')"
proof -
  have a: "this_security (securedEngine (\<lambda>args. JStr ''Bearer t'')) \<noteq> []"
    by (simp add: securedEngine_def register_security_def widgetEngine_def constructor_engine_def)
  have b: "\<forall>k \<in> set (securityKeys (securedEngine (\<lambda>args. JStr ''Bearer t''))).
             k \<notin> set (map fst [(''api_key'', JArr [])])"
    by (simp add: securityKeys_def securedEngine_def register_security_def widgetEngine_def
          constructor_engine_def)
  show ?thesis
    using unmatched_first_requirement_throws [OF a b] by simp
qed

text \<open>The earlier variant throws in the same situation.\<close>

lemma legacy_unmatched_first_requirement_throws:
  assumes "this_security e \<noteq> []"
      and "\<forall>k \<in> set (securityKeys e). k \<notin> set (map fst first)"
  shows "legacy_setAuthorizationHeader e (Some (first # others)) headers path method
           = Inl (TypeError ''Cannot read property handler of undefined'')"
proof -
  have "find (\<lambda>middlewareKey. middlewareKey \<in> set (map fst first)) (securityKeys e) = None"
    using assms(2) by (simp add: find_None_iff)
  with assms(1) show ?thesis
    by (simp add: legacy_setAuthorizationHeader_def)
qed

section \<open>Execution and tally: the listener, the counters, failures\<close>

lemma addCounts_sel [simp]:
  "testFails (addCounts f p s) = testFails s + f"
  "testPasses (addCounts f p s) = testPasses s + p"
  "sent (addCounts f p s) = sent s"
  "globalReject (addCounts f p s) = globalReject s"
  by (simp_all add: addCounts_def)

subsection \<open>No case gets past the listener registration\<close>

text \<open>While \<open>_globalReject\<close> is \<open>undefined\<close>, a case that is not skipped and whose request
  could be built throws at the registration of the listener and leaves the state as it
  was.\<close>

lemma listener_throws_on_enabled_case:
  assumes "prepareRequest w e method template md tc = Inr req"
      and "\<not> isDisabled e method template"
      and "\<not> globalReject s"
  shows "testCase w e method template md tc s
           = (s, Some (TypeError ''The listener argument must be of type function''))"
  using assms by (simp add: testCase_def)








subsection \<open>What the counters count\<close>









text \<open>\<open>runTests\<close> has no statement that resets the counters: raising them before an
  invocation raises what it leaves and what it returns by as much.\<close>

lemma testCase_addCounts:
  "testCase w e method template md tc (addCounts f p s)
     = (addCounts f p (fst (testCase w e method template md tc s)),
        snd (testCase w e method template md tc s))"
  by (simp add: testCase_def addCounts_def Let_def split: sum.splits outcome.splits)

lemma testCases_loop_addCounts:
  "testCases_loop w e method template md tcs (addCounts f p s)
     = (addCounts f p (fst (testCases_loop w e method template md tcs s)),
        snd (testCases_loop w e method template md tcs s))"
proof (induction tcs arbitrary: s)
  case Nil
  then show ?case by simp
next
  case (Cons tc tcs)
  obtain s1 r1 where t: "testCase w e method template md tc s = (s1, r1)"
    by (cases "testCase w e method template md tc s")
  then have t': "testCase w e method template md tc (addCounts f p s) = (addCounts f p s1, r1)"
    by (simp add: testCase_addCounts)
  show ?case
    by (cases r1) (simp_all add: t t' Cons.IH)
qed

lemma testEndpointMethod_addCounts:
  "testEndpointMethod w e template method md (addCounts f p s)
     = (addCounts f p (fst (testEndpointMethod w e template method md s)),
        snd (testEndpointMethod w e template method md s))"
  by (simp add: testEndpointMethod_def testCases_loop_addCounts split: sum.splits)

lemma testEndpoint_addCounts:
  "testEndpoint w e name methods (addCounts f p s)
     = (addCounts f p (fst (testEndpoint w e name methods s)),
        snd (testEndpoint w e name methods s))"
proof (induction methods arbitrary: s)
  case Nil
  then show ?case by simp
next
  case (Cons m methods)
  obtain methodName md where m: "m = (methodName, md)" by (cases m)
  obtain s1 r1 where t: "testEndpointMethod w e name methodName md s = (s1, r1)"
    by (cases "testEndpointMethod w e name methodName md s")
  then have t': "testEndpointMethod w e name methodName md (addCounts f p s)
                   = (addCounts f p s1, r1)"
    by (simp add: testEndpointMethod_addCounts)
  show ?case
    by (cases r1) (simp_all add: m t t' Cons.IH)
qed

lemma endpoints_loop_addCounts:
  "endpoints_loop w e eps (addCounts f p s)
     = (addCounts f p (fst (endpoints_loop w e eps s)), snd (endpoints_loop w e eps s))"
proof (induction eps arbitrary: s)
  case Nil
  then show ?case by simp
next
  case (Cons ep eps)
  obtain endpointName methods where ep: "ep = (endpointName, methods)" by (cases ep)
  obtain s1 r1 where t: "testEndpoint w e endpointName methods s = (s1, r1)"
    by (cases "testEndpoint w e endpointName methods s")
  then have t': "testEndpoint w e endpointName methods (addCounts f p s) = (addCounts f p s1, r1)"
    by (simp add: testEndpoint_addCounts)
  show ?case
    by (cases r1) (simp_all add: ep t t' Cons.IH)
qed

lemma runTests_addCounts:
  "runTests w e (addCounts f p s)
     = (addCounts f p (fst (runTests w e s)),
        case snd (runTests w e s) of
          Inl err \<Rightarrow> Inl err
        | Inr t \<Rightarrow> Inr \<lparr>fails = fails t + f, passes = passes t + p\<rparr>)"
proof -
  obtain s1 r1 where t: "endpoints_loop w e (this_paths e) s = (s1, r1)"
    by (cases "endpoints_loop w e (this_paths e) s")
  then have t': "endpoints_loop w e (this_paths e) (addCounts f p s) = (addCounts f p s1, r1)"
    by (simp add: endpoints_loop_addCounts)
  show ?thesis
    by (cases r1) (simp_all add: runTests_def t t')
qed




lemma widget_cases:
  "getGetMethodTestCases plainOptions (responses widgetMethod) = Inr [ok200, notFound404]"
  by (simp add: getGetMethodTestCases_def widgetMethod_def plainOptions_def belowLimit_def
        parseInt_def digitValue_def isWhiteSpace_def showInt_def showNat.simps ok200_def
        notFound404_def)

lemma widget_request:
  "fakeResolve w = sampleFaker \<Longrightarrow> code tc \<noteq> 400 \<Longrightarrow>
   prepareRequest w widgetEngine ''get'' ''/widgets/{id}'' widgetMethod tc = Inr widgetRequest"
  by (simp add: prepareRequest_def widgetEngine_def constructor_engine_def widgetMethod_def
        buildUrl_def getRequestHeaders_def setSecurityHeader_def selectMiddleware_def
        setContentType_def buildRequestBody_def getParamValue_def generateErrorParam_def
        sampleFaker_def idParam_def replace_def widgetRequest_def)

lemma widget_enabled: "\<not> isDisabled widgetEngine method template"
  by (simp add: isDisabled_def widgetEngine_def constructor_engine_def plainOptions_def)

lemma widget_run_throws:
  assumes "fakeResolve w = sampleFaker"
  shows "runTests w widgetEngine constructor_state
           = (constructor_state,
              Inl (TypeError ''The listener argument must be of type function''))"
proof -
  have r: "prepareRequest w widgetEngine ''get'' ''/widgets/{id}'' widgetMethod ok200
             = Inr widgetRequest"
    by (rule widget_request [OF assms]) (simp add: ok200_def)
  have g: "\<not> globalReject constructor_state"
    by (simp add: constructor_state_def)
  have e: "this_options widgetEngine = plainOptions"
          "this_paths widgetEngine = [(''/widgets/{id}'', [(''get'', widgetMethod)])]"
    by (simp_all add: widgetEngine_def constructor_engine_def)
  show ?thesis
    by (simp add: runTests_def e testEndpointMethod_def widget_enabled widget_cases
          listener_throws_on_enabled_case [OF r widget_enabled g])
qed

subsection \<open>A failed schema validation\<close>

text \<open>The branch that counts a failed validation is in the code, behind the listener
  registration: in a state where \<open>_globalReject\<close> holds a function, which no run reaches, it
  counts one fail and no pass and throws nothing.\<close>

lemma schema_failure_behind_listener:
  assumes "prepareRequest w e method template md tc = Inr req"
      and "\<not> isDisabled e method template"
      and "globalReject s"
      and "dispatch w req = Responded (code tc) resBody"
      and "truthy (metadata tc)" and "truthy (getProp (metadata tc) ''schema'')"
      and "\<not> validate w resBody (getProp (metadata tc) ''schema'')"
  shows "testCase w e method template md tc s
           = (s\<lparr>globalReject := True, sent := sent s @ [req],
                testFails := testFails s + 1\<rparr>, None)"
  using assms by (simp add: testCase_def Let_def)

text \<open>The earlier variant counts the same failure twice, once as a fail and once as a
  pass: its \<open>then\<close> callback has no \<open>return\<close> after the increment of \<open>_testFails\<close>.\<close>

lemma legacy_schema_failure_counts_both:
  assumes "truthy (getProp md ''schema'')" and "\<not> validate w resBody (getProp md ''schema'')"
  shows "legacy_settle w c md (Responded c resBody) s
           = s\<lparr>testFails := testFails s + 1, testPasses := testPasses s + 1\<rparr>"
  using assms by (cases md) (simp_all add: legacy_settle_def)

text \<open>
  Claim C8. For an executed test case whose expected response declares a schema, a failed
  schema validation of the observed body should raise \<open>fails\<close> by exactly one, leave \<open>passes\<close>,
  throw nothing and let the run continue. Neither variant of the engine does that. On the
  200 case of the widget contract, against a system that answers 200 with a body the
  validator rejects: \<open>_testCase\<close> of the engine throws at the registration of the listener,
  before the request goes out, so nothing is counted and \<open>runTests\<close> ends with the error;
  the promise chain of the earlier variant, given that response, counts one fail and one
  pass.
\<close>

theorem schema_failure_not_counted_once:
  "dispatch rejectingValidator widgetRequest = Responded 200 (JObj [])
   \<and> \<not> validate rejectingValidator (JObj []) (getProp (metadata ok200) ''schema'')
   \<and> testCase rejectingValidator widgetEngine ''get'' ''/widgets/{id}'' widgetMethod ok200
       constructor_state
     = (constructor_state, Some (TypeError ''The listener argument must be of type function''))
   \<and> runTests rejectingValidator widgetEngine constructor_state
     = (constructor_state, Inl (TypeError ''The listener argument must be of type function''))
   \<and> legacy_settle rejectingValidator 200 (metadata ok200) (Responded 200 (JObj []))
       constructor_state
     = constructor_state\<lparr>testFails := 1, testPasses := 1\<rparr>"
proof -
  have f: "fakeResolve rejectingValidator = sampleFaker"
    by (simp add: rejectingValidator_def okExternals_def sampleExternals_def)
  have r: "prepareRequest rejectingValidator widgetEngine ''get'' ''/widgets/{id}'' widgetMethod ok200
             = Inr widgetRequest"
    by (rule widget_request [OF f]) (simp add: ok200_def)
  have g: "\<not> globalReject constructor_state"
    by (simp add: constructor_state_def)
  have d: "dispatch rejectingValidator widgetRequest = Responded 200 (JObj [])"
          "\<not> validate rejectingValidator (JObj []) (getProp (metadata ok200) ''schema'')"
    by (simp_all add: rejectingValidator_def okExternals_def)
  have m: "truthy (getProp (metadata ok200) ''schema'')"
    by (simp add: ok200_def)
  have l: "legacy_settle rejectingValidator 200 (metadata ok200) (Responded 200 (JObj []))
             constructor_state
           = constructor_state\<lparr>testFails := 1, testPasses := 1\<rparr>"
    using legacy_schema_failure_counts_both [OF m d(2), of 200 constructor_state]
    by (simp add: constructor_state_def)
  show ?thesis
    using d l widget_run_throws [OF f] listener_throws_on_enabled_case [OF r widget_enabled g]
    by simp
qed

subsection \<open>A failed dispatch\<close>

text \<open>Behind the listener registration, in a state no run reaches, a failed dispatch
  counts one fail and then ends the loop over the cases: the \<open>catch\<close> branch rejects.\<close>

lemma dispatch_failure_aborts:
  assumes "prepareRequest w e method template md tc = Inr req"
      and "\<not> isDisabled e method template"
      and "globalReject s"
      and "dispatch w req = Failed msg
           \<or> (\<exists>status resBody. dispatch w req = Responded status resBody \<and> status \<noteq> code tc)"
  shows "\<exists>err. testCases_loop w e method template md (tc # rest) s
                 = (s\<lparr>globalReject := True, sent := sent s @ [req],
                      testFails := testFails s + 1\<rparr>, Some err)"
  using assms by (auto simp: testCase_def Let_def)

text \<open>The earlier variant swallows the failure: its \<open>catch\<close> counts the fail and returns, so
  the traversal goes on.\<close>

lemma legacy_dispatch_failure_is_counted_and_swallowed:
  "legacy_settle w c md (Failed msg) s = s\<lparr>testFails := testFails s + 1\<rparr>"
  "status \<noteq> c \<Longrightarrow> legacy_settle w c md (Responded status resBody) s
                      = s\<lparr>testFails := testFails s + 1\<rparr>"
  by (simp_all add: legacy_settle_def)

text \<open>
  Claim C1. A failure of one dispatched case (a status other than the expected one, or a
  failure of the transport) should count one fail and leave the rest of the run to go on.
  On the widget contract the planner yields the cases 200 and 404, and the system under
  test answers 404 to the request of the 200 case. The run never gets that far:
  \<open>_testCase\<close> throws at the registration of the listener, no caller catches, and
  \<open>runTests\<close> ends with that error. Nothing was sent, \<open>fails\<close> is still 0, the 404 case was
  not run, and no tally is returned.
\<close>

theorem first_case_aborts_run:
  "getGetMethodTestCases plainOptions (responses widgetMethod) = Inr [ok200, notFound404]
   \<and> prepareRequest sampleExternals widgetEngine ''get'' ''/widgets/{id}'' widgetMethod ok200
     = Inr widgetRequest
   \<and> dispatch sampleExternals widgetRequest = Responded 404 (JObj [])
   \<and> runTests sampleExternals widgetEngine constructor_state
     = (constructor_state, Inl (TypeError ''The listener argument must be of type function''))
   \<and> testFails constructor_state = 0 \<and> sent constructor_state = []"
proof -
  have f: "fakeResolve sampleExternals = sampleFaker"
    by (simp add: sampleExternals_def)
  have r: "prepareRequest sampleExternals widgetEngine ''get'' ''/widgets/{id}'' widgetMethod ok200
             = Inr widgetRequest"
    by (rule widget_request [OF f]) (simp add: ok200_def)
  have d: "dispatch sampleExternals widgetRequest = Responded 404 (JObj [])"
    by (simp add: sampleExternals_def)
  show ?thesis
    using widget_cases r d widget_run_throws [OF f] by (simp add: constructor_state_def)
qed

end
